theory Spec2Isabelle
  imports Complex_Main "HOL-Library.Sublist"
begin

section \<open>Recapify: the media processing pipeline of main.py and streamlit_app.py\<close>

text \<open>
  The repository holds two front-ends, \<^verbatim>\<open>main.py\<close> (Gradio) and
  \<^verbatim>\<open>streamlit_app.py\<close> (Streamlit). Both define functions of the same names;
  the definitions taken from \<^verbatim>\<open>main.py\<close> keep the source's names, those taken
  from \<^verbatim>\<open>streamlit_app.py\<close> carry the prefix \<open>st_\<close>.

  Everything outside the two files is a parameter of the model (the record \<open>env\<close>):
  what the shell does with a command line, what the inference server answers,
  how bytes decode as UTF-8 and how a string parses as JSON. The functions of
  the Python libraries whose behaviour the claims depend on (\<^verbatim>\<open>os.path\<close>, and
  the reading of a streamed response by \<^verbatim>\<open>requests\<close>) are written after the
  libraries. The mutable world
  (the record \<open>world\<close>) is passed explicitly: the files on disk, and, as a log of
  the effects, the command lines given to the shell and the HTTP requests sent.
  An exception is a value: the result of a function that can raise is
  \<open>exn + 'a\<close>, with \<open>Inl\<close> the exception that leaves the function.
  Calls of \<^verbatim>\<open>print\<close>, \<^verbatim>\<open>st.error\<close> and the other display functions of the
  front-ends are left out.
\<close>

subsection \<open>Strings and bytes\<close>

text \<open>
  A Python \<^verbatim>\<open>str\<close> is a sequence of Unicode code points, so \<^verbatim>\<open>len\<close> and slices
  count code points: \<open>str\<close> is a list of code points. \<^verbatim>\<open>bytes\<close> is a list of
  8-bit characters. \<open>ustr\<close> reads an ASCII literal as a \<open>str\<close>; other characters
  of the source's literals are written as their code point.
\<close>

type_synonym str = "nat list"
type_synonym bytes = "char list"

definition ustr :: "string \<Rightarrow> str" where
  "ustr s = map of_char s"

definition nl :: str where
  "nl = [10]"

definition dq :: str where
  "dq = [34]"

definition sq :: str where
  "sq = [39]"

subsection \<open>Exceptions\<close>

datatype exn =
    CalledProcessError int str
  | FileNotFoundError
  | JSONDecodeError
  | UnicodeDecodeError
  | RuntimeError
  | AttributeError
  | TypeError

subsection \<open>JSON values as Python reads them\<close>

text \<open>
  The value \<^verbatim>\<open>json.loads\<close> returns: \<^verbatim>\<open>None\<close>, a \<^verbatim>\<open>bool\<close>, an \<^verbatim>\<open>int\<close>, a
  \<^verbatim>\<open>float\<close> (a real number here; only whether it is zero is ever looked at),
  a \<^verbatim>\<open>str\<close>, a \<^verbatim>\<open>list\<close> or a \<^verbatim>\<open>dict\<close>, the dict as the list of its items.
\<close>

datatype json =
    JNull
  | JBool bool
  | JInt int
  | JFloat real
  | JStr str
  | JArr "json list"
  | JObj "(str \<times> json) list"

text \<open>\<^verbatim>\<open>json_line.get(key, default)\<close>: only a dict has the method.\<close>

fun json_get :: "json \<Rightarrow> str \<Rightarrow> json \<Rightarrow> exn + json" where
  "json_get (JObj kvs) k d = Inr (case map_of kvs k of None \<Rightarrow> d | Some v \<Rightarrow> v)"
| "json_get j k d = Inl AttributeError"

text \<open>\<^verbatim>\<open>full_response += value\<close>: a \<^verbatim>\<open>str\<close> takes only a \<^verbatim>\<open>str\<close>.\<close>

fun str_iadd :: "str \<Rightarrow> json \<Rightarrow> exn + str" where
  "str_iadd s (JStr t) = Inr (s @ t)"
| "str_iadd s j = Inl TypeError"

text \<open>The truth value Python's \<^verbatim>\<open>if\<close> gives a value.\<close>

fun truthy :: "json \<Rightarrow> bool" where
  "truthy JNull = False"
| "truthy (JBool b) = b"
| "truthy (JInt n) = (n \<noteq> 0)"
| "truthy (JFloat x) = (x \<noteq> 0)"
| "truthy (JStr s) = (s \<noteq> [])"
| "truthy (JArr xs) = (xs \<noteq> [])"
| "truthy (JObj kvs) = (kvs \<noteq> [])"

subsection \<open>The response of the inference server\<close>

text \<open>
  \<^verbatim>\<open>requests.post\<close> raises a \<^verbatim>\<open>RequestException\<close> (with its message) or
  returns a response. A response is its status code, the body as the pieces
  in which the transport delivers it (what \<^verbatim>\<open>raw.stream\<close> yields), and the
  decoding of bytes in the encoding of the response, which replaces what it
  cannot decode and so always gives a string. The body is finite and
  delivered in full: a response that never ends, or that breaks off with an
  error of the transport, is outside the model.
\<close>

record response =
  status_code :: int
  raw_stream :: "bytes list"
  decode_text :: "bytes \<Rightarrow> str"

datatype post_outcome = Raises str | Responds response

subsection \<open>The response as the library requests reads it\<close>

text \<open>
  \<^verbatim>\<open>bytes.splitlines()\<close>: a line ends at \<^verbatim>\<open>\n\<close>, \<^verbatim>\<open>\r\<close> or \<^verbatim>\<open>\r\n\<close>; the line
  ends are dropped, and a last line that is empty is not a line.
\<close>

definition LF :: char where
  "LF = CHR 0x0A"

definition CR :: char where
  "CR = CHR 0x0D"

fun splitlines_from :: "bytes \<Rightarrow> bytes \<Rightarrow> bytes list" where
  "splitlines_from cur [] = (if cur = [] then [] else [cur])"
| "splitlines_from cur (c # cs) =
    (if c = LF then cur # splitlines_from [] cs
     else if c = CR then cur # splitlines_from [] (if take 1 cs = [LF] then drop 1 cs else cs)
     else splitlines_from (cur @ [c]) cs)"

definition splitlines :: "bytes \<Rightarrow> bytes list" where
  "splitlines b = splitlines_from [] b"

text \<open>
  \<^verbatim>\<open>Response.iter_lines()\<close> of requests, written after the library's text, on
  the pieces that are still to come. A piece is put after the pending line,
  if there is one, and split into lines; when the piece does not end with a
  line end, its last line is kept pending and not yielded yet. After the last
  piece, the pending line is yielded. Each line comes with the state of the
  stream while the caller holds it: \<open>Some\<close> the bytes of the body that are not
  read yet, or \<open>None\<close> when the stream was read to its end and the response is
  marked as consumed, which is the case for the pending line yielded at the
  end only.
\<close>

fun iter_lines_from :: "bytes option \<Rightarrow> bytes list \<Rightarrow> (bytes \<times> bytes option) list" where
  "iter_lines_from pending [] = (case pending of None \<Rightarrow> [] | Some l \<Rightarrow> [(l, None)])"
| "iter_lines_from pending (piece # later) =
    (let chunk = (case pending of None \<Rightarrow> piece | Some p \<Rightarrow> p @ piece);
         lines = splitlines chunk;
         unread = Some (concat later)
     in if lines \<noteq> [] \<and> last lines \<noteq> [] \<and> chunk \<noteq> [] \<and> last (last lines) = last chunk
        then map (\<lambda>l. (l, unread)) (butlast lines) @ iter_lines_from (Some (last lines)) later
        else map (\<lambda>l. (l, unread)) lines @ iter_lines_from None later)"

definition iter_lines :: "response \<Rightarrow> bytes list" where
  "iter_lines r = map fst (iter_lines_from None (raw_stream r))"

text \<open>The state of the stream while the caller holds the line of index \<open>i\<close>.\<close>

definition unread_at :: "response \<Rightarrow> nat \<Rightarrow> bytes option" where
  "unread_at r i =
    (case drop i (iter_lines_from None (raw_stream r)) of [] \<Rightarrow> None | x # xs \<Rightarrow> snd x)"

text \<open>
  \<^verbatim>\<open>Response.text\<close>: the content is what is left to read of the body; the text
  of an empty content is the empty string, of another one its decoding. On a
  response marked as consumed, reading the content raises \<^verbatim>\<open>RuntimeError\<close>.
  \<open>resp_text\<close> is \<^verbatim>\<open>response.text\<close> read before anything else was read.
\<close>

definition content_text :: "response \<Rightarrow> bytes \<Rightarrow> str" where
  "content_text r content = (if content = [] then [] else decode_text r content)"

definition read_text :: "response \<Rightarrow> bytes option \<Rightarrow> exn + str" where
  "read_text r unread =
    (case unread of None \<Rightarrow> Inl RuntimeError | Some content \<Rightarrow> Inr (content_text r content))"

definition resp_text :: "response \<Rightarrow> str" where
  "resp_text r = content_text r (concat (raw_stream r))"

subsection \<open>The environment and the world\<close>

type_synonym path = str
type_synonym fs = "path \<rightharpoonup> str"

text \<open>
  \<open>shell\<close> runs a command line on the files and gives the exit status and the
  files afterwards (a program that is not installed is exit status 127 of the
  shell; the shell itself is always there). \<open>http_post\<close> takes the URL, and
  the model and the prompt of the JSON payload. \<open>utf8_decode\<close> and \<open>json_loads\<close> are \<open>None\<close> where
  \<^verbatim>\<open>bytes.decode\<close> and \<^verbatim>\<open>json.loads\<close> raise.
\<close>

record env =
  OLLAMA_SERVER_URL :: str
  shell :: "str \<Rightarrow> fs \<Rightarrow> int \<times> fs"
  http_post :: "str \<Rightarrow> str \<Rightarrow> str \<Rightarrow> post_outcome"
  utf8_decode :: "bytes \<Rightarrow> str option"
  json_loads :: "str \<Rightarrow> json option"

record world =
  files :: fs
  cmd_log :: "str list"
  post_log :: "(str \<times> str \<times> str) list"

subsection \<open>summarize_with_model\<close>

text \<open>
  The loop of lines 112 to 121 of \<^verbatim>\<open>main.py\<close> (142 to 148 of
  \<^verbatim>\<open>streamlit_app.py\<close>, the same text), with \<open>full_response\<close> as accumulator.
  \<open>Inr\<close> is the value of \<open>full_response\<close> when the loop is left, by the end of
  the lines or by \<^verbatim>\<open>break\<close>.
\<close>

fun iter_lines_loop :: "env \<Rightarrow> str \<Rightarrow> bytes list \<Rightarrow> exn + str" where
  "iter_lines_loop E full_response [] = Inr full_response"
| "iter_lines_loop E full_response (line # rest) =
    (if line = [] then iter_lines_loop E full_response rest
     else
      (case utf8_decode E line of
        None \<Rightarrow> Inl UnicodeDecodeError
      | Some decoded_line \<Rightarrow>
         (case json_loads E decoded_line of
           None \<Rightarrow> Inl JSONDecodeError
         | Some json_line \<Rightarrow>
            (case json_get json_line (ustr ''response'') (JStr []) of
              Inl e \<Rightarrow> Inl e
            | Inr r \<Rightarrow>
               (case str_iadd full_response r of
                 Inl e \<Rightarrow> Inl e
               | Inr full_response' \<Rightarrow>
                  (case json_get json_line (ustr ''done'') (JBool False) of
                    Inl e \<Rightarrow> Inl e
                  | Inr d \<Rightarrow>
                     if truthy d then Inr full_response'
                     else iter_lines_loop E full_response' rest))))))"

text \<open>
  \<^verbatim>\<open>response.text\<close> as the handler of \<^verbatim>\<open>JSONDecodeError\<close> reads it (line 125 of
  \<^verbatim>\<open>main.py\<close>, 151 of \<^verbatim>\<open>streamlit_app.py\<close>). The loop holds the line at which
  \<^verbatim>\<open>json.loads\<close> raised: the first line that is not blank, decodes and does not
  parse, since every line before it was taken without that exception (lemma
  \<open>json_error_at_first_bad_line\<close> below). The text is read in the state of
  the stream at that line.
\<close>

definition not_json :: "env \<Rightarrow> bytes \<Rightarrow> bool" where
  "not_json E line =
    (if line = [] then False
     else case utf8_decode E line of None \<Rightarrow> False | Some s \<Rightarrow> json_loads E s = None)"

definition text_in_handler :: "env \<Rightarrow> response \<Rightarrow> exn + str" where
  "text_in_handler E response =
     read_text response
       (unread_at response (length (takeWhile (\<lambda>l. \<not> not_json E l) (iter_lines response))))"

text \<open>The prompt of lines 90 to 98.\<close>

definition prompt_of :: "str \<Rightarrow> str \<Rightarrow> str" where
  "prompt_of context text =
     ustr ''You are given a transcript from a meeting, along with some optional context.'' @ nl @
     ustr ''    '' @ nl @
     ustr ''    Context: '' @
     (if context \<noteq> [] then context else ustr ''No additional context provided.'') @ nl @
     ustr ''    '' @ nl @
     ustr ''    The transcript is as follows:'' @ nl @
     ustr ''    '' @ nl @
     ustr ''    '' @ text @ nl @
     ustr ''    '' @ nl @
     ustr ''    Please summarize the transcript.''"

text \<open>The constant text that opens the message of lines 74 to 88 of \<^verbatim>\<open>main.py\<close>.\<close>

definition unavailable_head :: str where
  "unavailable_head =
     [10060] @ ustr '' Ollama Service Unavailable'' @ nl @
     nl @
     ustr ''This deployment cannot connect to an Ollama server for AI summarization.'' @ nl @
     nl @
     [128221] @ ustr '' **Raw Transcript Available**: You can still download the full transcript below.'' @ nl @
     nl @
     [128295] @ ustr '' **To enable AI summarization**:'' @ nl @
     ustr ''1. Deploy your own Ollama server'' @ nl @
     ustr ''2. Set the OLLAMA_SERVER_URL environment variable'' @ nl @
     ustr ''3. Redeploy this application'' @ nl @
     nl @
     ustr ''**Context provided**: ''"

text \<open>The same of lines 101 to 115 of \<^verbatim>\<open>streamlit_app.py\<close>.\<close>

definition st_unavailable_head :: str where
  "st_unavailable_head =
     [10060] @ ustr '' **Ollama Service Unavailable**'' @ nl @
     nl @
     ustr ''This deployment cannot connect to an Ollama server for AI summarization.'' @ nl @
     nl @
     [128221] @ ustr '' **Raw Transcript Available**: You can download the full transcript below.'' @ nl @
     nl @
     [128295] @ ustr '' **To enable AI summarization**:'' @ nl @
     ustr ''1. Deploy your own Ollama server'' @ nl @
     ustr ''2. Set the OLLAMA_SERVER_URL environment variable'' @ nl @
     ustr ''3. Redeploy this application'' @ nl @
     nl @
     ustr ''**Context provided**: ''"

text \<open>
  The body of both \<^verbatim>\<open>summarize_with_model\<close>, which differ in the opening text
  of the first message only. A \<^verbatim>\<open>JSONDecodeError\<close> of the loop is caught by the
  inner handler; no other exception of the loop is a \<^verbatim>\<open>RequestException\<close>, so
  it leaves the function, and so does a \<^verbatim>\<open>RuntimeError\<close> of the inner handler.
\<close>

definition summarize_body :: "str \<Rightarrow> env \<Rightarrow> str \<Rightarrow> str \<Rightarrow> str \<Rightarrow> world \<Rightarrow> (exn + str) \<times> world" where
  "summarize_body head E llm_model_name context text w =
    (if llm_model_name = ustr ''ollama-not-available'' then
       (Inr (head @ (if context \<noteq> [] then context else ustr ''None'') @ nl @
             nl @
             ustr ''**Transcript preview** (first 500 characters):'' @ nl @
             take 500 text @ (if length text > 500 then ustr ''...'' else [])), w)
     else
       (let prompt = prompt_of context text;
            url = OLLAMA_SERVER_URL E @ ustr ''/api/generate'';
            w' = w\<lparr>post_log := post_log w @ [(url, llm_model_name, prompt)]\<rparr>
        in case http_post E url llm_model_name prompt of
             Raises e \<Rightarrow>
               (Inr ([10060] @ ustr '' Error: Cannot connect to Ollama server: '' @ e @ nl @
                     nl @
                     ustr ''Transcript is still available for download below.''), w')
           | Responds response \<Rightarrow>
               if status_code response = 200 then
                 (case iter_lines_loop E [] (iter_lines response) of
                    Inr full_response \<Rightarrow> (Inr full_response, w')
                  | Inl e \<Rightarrow>
                      if e = JSONDecodeError then
                        (case text_in_handler E response of
                           Inl e' \<Rightarrow> (Inl e', w')
                         | Inr response_text \<Rightarrow>
                             (Inr (ustr ''Failed to parse the response from the server. Raw response: '' @
                                   response_text), w'))
                      else (Inl e, w'))
               else
                 (Inr ([10060] @ ustr '' Error: Failed to summarize with model '' @ llm_model_name @
                       ustr ''. Server returned: '' @ resp_text response @ nl @
                       nl @
                       ustr ''Transcript is still available for download below.''), w')))"

definition summarize_with_model :: "env \<Rightarrow> str \<Rightarrow> str \<Rightarrow> str \<Rightarrow> world \<Rightarrow> (exn + str) \<times> world" where
  "summarize_with_model = summarize_body unavailable_head"

definition st_summarize_with_model :: "env \<Rightarrow> str \<Rightarrow> str \<Rightarrow> str \<Rightarrow> world \<Rightarrow> (exn + str) \<times> world" where
  "st_summarize_with_model = summarize_body st_unavailable_head"

subsection \<open>Paths, files and the shell\<close>

text \<open>
  \<^verbatim>\<open>str.rfind\<close> for one character: the index of its last occurrence, or \<open>-1\<close>.
\<close>

fun rfind :: "str \<Rightarrow> nat \<Rightarrow> int" where
  "rfind [] c = - 1"
| "rfind (x # xs) c =
    (let r = rfind xs c in if 0 \<le> r then r + 1 else if x = c then 0 else - 1)"

text \<open>
  \<^verbatim>\<open>os.path.splitext\<close> and \<^verbatim>\<open>os.path.basename\<close> of the Python library for POSIX
  paths (separator \<open>/\<close>, code point 47; extension separator \<open>.\<close>, code point 46),
  written after the library's text: a dot is the start of the extension when
  it comes after the last separator and after a character of the file name
  that is not a dot. \<open>splitext_loop\<close> is the library's loop that skips the
  leading dots of the file name.
\<close>

function splitext_loop :: "str \<Rightarrow> int \<Rightarrow> int \<Rightarrow> str \<times> str" where
  "splitext_loop p dotIndex filenameIndex =
    (if filenameIndex < dotIndex then
       (if take 1 (drop (nat filenameIndex) p) \<noteq> [46]
        then (take (nat dotIndex) p, drop (nat dotIndex) p)
        else splitext_loop p dotIndex (filenameIndex + 1))
     else (p, []))"
  by pat_completeness auto
termination
  by (relation "measure (\<lambda>(p, dotIndex, filenameIndex). nat (dotIndex - filenameIndex))") auto

definition splitext :: "str \<Rightarrow> str \<times> str" where
  "splitext p =
    (let sepIndex = rfind p 47; dotIndex = rfind p 46
     in if sepIndex < dotIndex then splitext_loop p dotIndex (sepIndex + 1) else (p, []))"

definition basename :: "str \<Rightarrow> str" where
  "basename p = drop (nat (rfind p 47 + 1)) p"

text \<open>
  A path is the key of its file: two different path strings are two files.
  \<^verbatim>\<open>open(p, "r").read()\<close>, \<^verbatim>\<open>open(p, "w").write(c)\<close>, \<^verbatim>\<open>os.remove(p)\<close> (which is
  \<^verbatim>\<open>os.unlink\<close>) and \<^verbatim>\<open>os.path.exists(p)\<close>.
\<close>

definition open_read :: "path \<Rightarrow> world \<Rightarrow> exn + str" where
  "open_read p w = (case files w p of None \<Rightarrow> Inl FileNotFoundError | Some c \<Rightarrow> Inr c)"

definition open_write :: "path \<Rightarrow> str \<Rightarrow> world \<Rightarrow> world" where
  "open_write p c w = w\<lparr>files := (files w)(p \<mapsto> c)\<rparr>"

definition os_remove :: "path \<Rightarrow> world \<Rightarrow> (exn + unit) \<times> world" where
  "os_remove p w =
    (case files w p of
       None \<Rightarrow> (Inl FileNotFoundError, w)
     | Some c \<Rightarrow> (Inr (), w\<lparr>files := (files w)(p := None)\<rparr>))"

definition os_path_exists :: "path \<Rightarrow> world \<Rightarrow> bool" where
  "os_path_exists p w = (files w p \<noteq> None)"

text \<open>
  \<^verbatim>\<open>subprocess.run(cmd, shell=True, check=True)\<close>: the shell runs the command
  line, and an exit status other than 0 raises \<^verbatim>\<open>CalledProcessError\<close>.
\<close>

definition subprocess_run :: "env \<Rightarrow> str \<Rightarrow> world \<Rightarrow> (exn + unit) \<times> world" where
  "subprocess_run E cmd w =
    (let (returncode, fs') = shell E cmd (files w);
         w' = w\<lparr>files := fs', cmd_log := cmd_log w @ [cmd]\<rparr>
     in if returncode \<noteq> 0 then (Inl (CalledProcessError returncode cmd), w') else (Inr (), w'))"

text \<open>The two command lines (lines 145 and 177 of \<^verbatim>\<open>main.py\<close>, 160 and 181 of \<^verbatim>\<open>streamlit_app.py\<close>).\<close>

definition ffmpeg_cmd :: "path \<Rightarrow> path \<Rightarrow> str" where
  "ffmpeg_cmd audio_file_path output_wav_file =
     ustr ''ffmpeg -y -i '' @ dq @ audio_file_path @ dq @ ustr '' -ar 16000 -ac 1 '' @ dq @
     output_wav_file @ dq"

definition whisper_command :: "str \<Rightarrow> path \<Rightarrow> path \<Rightarrow> str" where
  "whisper_command whisper_model_name audio_file_wav output_file =
     ustr ''./whisper.cpp/build/bin/whisper-cli -m ./whisper.cpp/models/ggml-'' @
     whisper_model_name @ ustr ''.bin -f '' @ dq @ audio_file_wav @ dq @ ustr '' > '' @ output_file"

subsection \<open>main.py: preprocess_audio_file and translate_and_summarize\<close>

definition output_wav_file_of :: "path \<Rightarrow> path" where
  "output_wav_file_of audio_file_path = fst (splitext audio_file_path) @ ustr ''_converted.wav''"

definition preprocess_audio_file :: "env \<Rightarrow> path \<Rightarrow> world \<Rightarrow> (exn + path) \<times> world" where
  "preprocess_audio_file E audio_file_path w =
    (let output_wav_file = output_wav_file_of audio_file_path;
         cmd = ffmpeg_cmd audio_file_path output_wav_file
     in case subprocess_run E cmd w of
          (Inl e, w') \<Rightarrow> (Inl e, w')
        | (Inr u, w') \<Rightarrow> (Inr output_wav_file, w'))"

definition translate_and_summarize ::
  "env \<Rightarrow> path \<Rightarrow> str \<Rightarrow> str \<Rightarrow> str \<Rightarrow> world \<Rightarrow> (exn + str \<times> path) \<times> world" where
  "translate_and_summarize E audio_file_path context whisper_model_name llm_model_name w =
    (let output_file = ustr ''output.txt'' in
     case preprocess_audio_file E audio_file_path w of
       (Inl e, w1) \<Rightarrow> (Inl e, w1)
     | (Inr audio_file_wav, w1) \<Rightarrow>
        (case subprocess_run E (whisper_command whisper_model_name audio_file_wav output_file) w1 of
           (Inl e, w2) \<Rightarrow> (Inl e, w2)
         | (Inr u, w2) \<Rightarrow>
            (case open_read output_file w2 of
               Inl e \<Rightarrow> (Inl e, w2)
             | Inr transcript \<Rightarrow>
                (let transcript_file = ustr ''transcript.txt'';
                     w3 = open_write transcript_file transcript w2
                 in case summarize_with_model E llm_model_name context transcript w3 of
                      (Inl e, w4) \<Rightarrow> (Inl e, w4)
                    | (Inr summary, w4) \<Rightarrow>
                       (case os_remove audio_file_wav w4 of
                          (Inl e, w5) \<Rightarrow> (Inl e, w5)
                        | (Inr u, w5) \<Rightarrow>
                           (case os_remove output_file w5 of
                              (Inl e, w6) \<Rightarrow> (Inl e, w6)
                            | (Inr u, w6) \<Rightarrow> (Inr (summary, transcript_file), w6)))))))"

subsection \<open>streamlit_app.py: preprocess_audio_file, transcribe_audio and main\<close>

text \<open>The handler of lines 165 to 167 catches \<^verbatim>\<open>CalledProcessError\<close> only.\<close>

definition st_preprocess_audio_file :: "env \<Rightarrow> path \<Rightarrow> world \<Rightarrow> (exn + path option) \<times> world" where
  "st_preprocess_audio_file E audio_file_path w =
    (let output_wav_file = output_wav_file_of audio_file_path;
         cmd = ffmpeg_cmd audio_file_path output_wav_file
     in case subprocess_run E cmd w of
          (Inr u, w') \<Rightarrow> (Inr (Some output_wav_file), w')
        | (Inl e, w') \<Rightarrow>
           (case e of CalledProcessError rc c \<Rightarrow> (Inr None, w') | _ \<Rightarrow> (Inl e, w')))"

text \<open>
  The message of lines 197 to 209: the constant text that opens it, and the
  message.
\<close>

definition whisper_unavailable_head :: str where
  "whisper_unavailable_head =
     [128295] @ ustr '' **Whisper.cpp Not Available in This Deployment**'' @ nl @
     nl @
     ustr ''This Streamlit deployment doesn'' @ sq @ ustr ''t have whisper.cpp compiled. '' @ nl @
     nl @
     ustr ''**To enable transcription:**'' @ nl @
     ustr ''1. Deploy with a custom Docker container that builds whisper.cpp'' @ nl @
     ustr ''2. Use OpenAI Whisper API instead'' @ nl @
     ustr ''3. Use a pre-built whisper service'' @ nl @
     nl @
     ustr ''**Audio file received:** ''"

definition whisper_unavailable :: "path \<Rightarrow> str \<Rightarrow> str" where
  "whisper_unavailable audio_file_path whisper_model_name =
     whisper_unavailable_head @ basename audio_file_path @ nl @
     ustr ''**Model requested:** '' @ whisper_model_name @ nl @
     nl @
     ustr ''For a working demo, try the Railway deployment with Docker.''"

text \<open>The body of the inner \<^verbatim>\<open>try\<close>, lines 185 to 194.\<close>

definition st_whisper_try :: "env \<Rightarrow> str \<Rightarrow> path \<Rightarrow> path \<Rightarrow> world \<Rightarrow> (exn + str) \<times> world" where
  "st_whisper_try E whisper_command_line audio_file_wav output_file w =
    (case subprocess_run E whisper_command_line w of
       (Inl e, w1) \<Rightarrow> (Inl e, w1)
     | (Inr u, w1) \<Rightarrow>
        (case open_read output_file w1 of
           Inl e \<Rightarrow> (Inl e, w1)
         | Inr transcript \<Rightarrow>
            (case os_remove audio_file_wav w1 of
               (Inl e, w2) \<Rightarrow> (Inl e, w2)
             | (Inr u, w2) \<Rightarrow>
                (case os_remove output_file w2 of
                   (Inl e, w3) \<Rightarrow> (Inl e, w3)
                 | (Inr u, w3) \<Rightarrow> (Inr transcript, w3)))))"

text \<open>
  \<^verbatim>\<open>transcribe_audio\<close>: the inner handler (line 195) takes \<^verbatim>\<open>CalledProcessError\<close>
  and \<^verbatim>\<open>FileNotFoundError\<close>, the outer one (line 211) every other exception.
\<close>

definition st_transcribe_audio :: "env \<Rightarrow> path \<Rightarrow> str \<Rightarrow> world \<Rightarrow> (exn + str option) \<times> world" where
  "st_transcribe_audio E audio_file_path whisper_model_name w =
    (let output_file = ustr ''output.txt'' in
     case st_preprocess_audio_file E audio_file_path w of
       (Inl e, w1) \<Rightarrow> (Inl e, w1)
     | (Inr None, w1) \<Rightarrow> (Inr None, w1)
     | (Inr (Some audio_file_wav), w1) \<Rightarrow>
        if audio_file_wav = [] then (Inr None, w1)
        else
         (let whisper_command_line = whisper_command whisper_model_name audio_file_wav output_file
          in case st_whisper_try E whisper_command_line audio_file_wav output_file w1 of
               (Inr transcript, w2) \<Rightarrow> (Inr (Some transcript), w2)
             | (Inl e, w2) \<Rightarrow>
                (case e of
                   CalledProcessError rc c \<Rightarrow>
                     (Inr (Some (whisper_unavailable audio_file_path whisper_model_name)), w2)
                 | FileNotFoundError \<Rightarrow>
                     (Inr (Some (whisper_unavailable audio_file_path whisper_model_name)), w2)
                 | _ \<Rightarrow> (Inr None, w2))))"

text \<open>
  What \<^verbatim>\<open>main\<close> does when the button is pressed on an uploaded file saved at
  \<open>tmp_file_path\<close> (lines 272 to 316). The result is what the page shows: the
  summary and the transcript, or \<open>None\<close> for the message that transcription
  failed. The clean-up of lines 309 to 314 ignores every exception.
\<close>

definition st_main_process ::
  "env \<Rightarrow> path \<Rightarrow> str \<Rightarrow> str \<Rightarrow> str \<Rightarrow> world \<Rightarrow> (exn + (str \<times> str) option) \<times> world" where
  "st_main_process E tmp_file_path context whisper_model llm_model w =
    (case st_transcribe_audio E tmp_file_path whisper_model w of
       (Inl e, w1) \<Rightarrow> (Inl e, w1)
     | (Inr None, w1) \<Rightarrow> (Inr None, w1)
     | (Inr (Some transcript), w1) \<Rightarrow>
        if transcript = [] then (Inr None, w1)
        else
         (let transcript_file = ustr ''transcript.txt'';
              w2 = open_write transcript_file transcript w1
          in case st_summarize_with_model E llm_model context transcript w2 of
               (Inl e, w3) \<Rightarrow> (Inl e, w3)
             | (Inr summary, w3) \<Rightarrow>
                (let w4 =
                   (case os_remove tmp_file_path w3 of
                      (Inl e, w') \<Rightarrow> w'
                    | (Inr u, w') \<Rightarrow>
                       if os_path_exists transcript_file w'
                       then snd (os_remove transcript_file w')
                       else w')
                 in (Inr (Some (summary, transcript)), w4))))"

subsection \<open>What the two external tools did\<close>

text \<open>
  The vocabulary of the statements about the pipeline: the exit status of the
  \<^verbatim>\<open>ffmpeg\<close> command line for an input path and the files it leaves, and the
  same for the command line of the transcription engine, run after it.
\<close>

definition ffmpeg_line :: "path \<Rightarrow> str" where
  "ffmpeg_line p = ffmpeg_cmd p (output_wav_file_of p)"

definition ffmpeg_status :: "env \<Rightarrow> path \<Rightarrow> fs \<Rightarrow> int" where
  "ffmpeg_status E p fs = fst (shell E (ffmpeg_line p) fs)"

definition files_after_ffmpeg :: "env \<Rightarrow> path \<Rightarrow> fs \<Rightarrow> fs" where
  "files_after_ffmpeg E p fs = snd (shell E (ffmpeg_line p) fs)"

definition whisper_line :: "path \<Rightarrow> str \<Rightarrow> str" where
  "whisper_line p whisper_model_name =
     whisper_command whisper_model_name (output_wav_file_of p) (ustr ''output.txt'')"

definition whisper_status :: "env \<Rightarrow> path \<Rightarrow> str \<Rightarrow> fs \<Rightarrow> int" where
  "whisper_status E p whisper_model_name fs =
     fst (shell E (whisper_line p whisper_model_name) (files_after_ffmpeg E p fs))"

definition files_after_whisper :: "env \<Rightarrow> path \<Rightarrow> str \<Rightarrow> fs \<Rightarrow> fs" where
  "files_after_whisper E p whisper_model_name fs =
     snd (shell E (whisper_line p whisper_model_name) (files_after_ffmpeg E p fs))"

subsection \<open>What a line of the stream holds\<close>

text \<open>
  The vocabulary of the statements about the stream. A line that is not blank
  holds the JSON value it decodes and parses to (\<open>frame_of\<close>). A frame is a
  JSON object; its text is the string under \<^verbatim>\<open>response\<close> (the empty string when
  the key is missing), and it is terminal when the value under \<^verbatim>\<open>done\<close> is
  true. \<open>line_text\<close> is \<open>None\<close> for a line that holds no such frame.
  \<open>accumulated\<close> is the summary as the specification words it: the texts in
  the order of arrival, up to and with the first terminal frame.
\<close>

definition frame_of :: "env \<Rightarrow> bytes \<Rightarrow> json option" where
  "frame_of E line = (case utf8_decode E line of None \<Rightarrow> None | Some s \<Rightarrow> json_loads E s)"

fun frame_response :: "json \<Rightarrow> str option" where
  "frame_response (JObj kvs) =
    (case map_of kvs (ustr ''response'') of
       None \<Rightarrow> Some []
     | Some v \<Rightarrow> (case v of JStr t \<Rightarrow> Some t | _ \<Rightarrow> None))"
| "frame_response j = None"

fun frame_done :: "json \<Rightarrow> bool" where
  "frame_done (JObj kvs) =
    (case map_of kvs (ustr ''done'') of None \<Rightarrow> False | Some d \<Rightarrow> truthy d)"
| "frame_done j = False"

definition line_text :: "env \<Rightarrow> bytes \<Rightarrow> str option" where
  "line_text E line =
    (if line = [] then Some []
     else case frame_of E line of None \<Rightarrow> None | Some j \<Rightarrow> frame_response j)"

definition line_done :: "env \<Rightarrow> bytes \<Rightarrow> bool" where
  "line_done E line =
    (if line = [] then False
     else case frame_of E line of None \<Rightarrow> False | Some j \<Rightarrow> frame_done j)"

fun accumulated :: "env \<Rightarrow> bytes list \<Rightarrow> str" where
  "accumulated E [] = []"
| "accumulated E (line # rest) =
    (case line_text E line of None \<Rightarrow> [] | Some t \<Rightarrow> t) @
    (if line_done E line then [] else accumulated E rest)"

subsection \<open>Concrete inputs\<close>

text \<open>The three frames \<^verbatim>\<open>A\<close>, \<^verbatim>\<open>B\<close> (terminal) and \<^verbatim>\<open>C\<close>, as lines and as values.\<close>

definition line_A :: bytes where
  \<open>line_A = ''{"response":"A","done":false}''\<close>

definition line_B :: bytes where
  \<open>line_B = ''{"response":"B","done":true}''\<close>

definition line_C :: bytes where
  \<open>line_C = ''{"response":"C","done":false}''\<close>

definition frame_A :: json where
  "frame_A = JObj [(ustr ''response'', JStr (ustr ''A'')), (ustr ''done'', JBool False)]"

definition frame_B :: json where
  "frame_B = JObj [(ustr ''response'', JStr (ustr ''B'')), (ustr ''done'', JBool True)]"

definition frame_C :: json where
  "frame_C = JObj [(ustr ''response'', JStr (ustr ''C'')), (ustr ''done'', JBool False)]"

text \<open>
  An environment to run the model in. Its decoder reads ASCII bytes. Its
  parser reads the three frames and the number \<^verbatim>\<open>5\<close> and rejects every other
  string; it is used on these four and on \<^verbatim>\<open>not json\<close> only, where it agrees
  with \<^verbatim>\<open>json.loads\<close>. Its shell knows two command lines: \<^verbatim>\<open>ffmpeg\<close>, which
  leaves with the given status and, when that is 0, has written
  \<^verbatim>\<open>a_converted.wav\<close>; and every other, taken for the transcription engine:
  the redirection creates \<^verbatim>\<open>output.txt\<close>, which holds the engine's output
  when the engine leaves with status 0 and nothing when it does not.
\<close>

definition demo_decode :: "bytes \<Rightarrow> str option" where
  "demo_decode b = (if list_all (\<lambda>c. (of_char c :: nat) < 128) b then Some (map of_char b) else None)"

definition demo_loads :: "str \<Rightarrow> json option" where
  "demo_loads s =
    (if s = map of_char line_A then Some frame_A
     else if s = map of_char line_B then Some frame_B
     else if s = map of_char line_C then Some frame_C
     else if s = ustr ''5'' then Some (JInt 5)
     else None)"

definition demo_shell :: "int \<Rightarrow> int \<Rightarrow> str \<Rightarrow> fs \<Rightarrow> int \<times> fs" where
  "demo_shell ffmpeg_rc whisper_rc cmd fs =
    (if take 6 cmd = ustr ''ffmpeg'' then
       (ffmpeg_rc,
        if ffmpeg_rc = 0 then fs(ustr ''a_converted.wav'' \<mapsto> ustr ''RIFF'') else fs)
     else
       (whisper_rc,
        fs(ustr ''output.txt'' \<mapsto> (if whisper_rc = 0 then ustr ''hello world'' else []))))"

definition demo_env :: "(str \<Rightarrow> fs \<Rightarrow> int \<times> fs) \<Rightarrow> post_outcome \<Rightarrow> env" where
  "demo_env sh answer =
    \<lparr>OLLAMA_SERVER_URL = ustr ''http://localhost:11434'',
     shell = sh,
     http_post = (\<lambda>url model prompt. answer),
     utf8_decode = demo_decode,
     json_loads = demo_loads\<rparr>"

definition demo_world :: world where
  "demo_world = \<lparr>files = [ustr ''a.mp3'' \<mapsto> ustr ''ID3''], cmd_log = [], post_log = []\<rparr>"

text \<open>
  Responses of the concrete server: a status, the pieces of the body, and
  bytes decoded one to one. \<open>abc_stream\<close> is a body of two pieces that holds
  the three frames, a line each. \<open>broken_stream\<close> is a body of two pieces whose
  third line is not JSON; \<open>broken_tail\<close> is a body that ends, without a line
  end, in a line that is not JSON.
\<close>

definition demo_response :: "int \<Rightarrow> bytes list \<Rightarrow> response" where
  "demo_response status pieces =
    \<lparr>status_code = status, raw_stream = pieces, decode_text = map of_char\<rparr>"

definition abc_stream :: response where
  "abc_stream = demo_response 200 [line_A @ [LF] @ line_B @ [LF], line_C @ [LF]]"

definition broken_stream :: response where
  "broken_stream =
    demo_response 200
      [line_A @ [LF] @ line_C @ [LF] @ ''not json'' @ [LF], line_B @ [LF]]"

definition broken_tail :: response where
  "broken_tail = demo_response 200 [line_A @ [LF] @ ''not json'']"

section \<open>Lemmas\<close>

subsection \<open>Paths\<close>

lemma rfind_bounds: "- 1 \<le> rfind p c \<and> rfind p c < int (length p)"
  by (induction p) (auto simp: Let_def)

lemma rfind_nth: "0 \<le> rfind p c \<Longrightarrow> p ! nat (rfind p c) = c"
proof (induction p)
  case Nil
  then show ?case by simp
next
  case (Cons x xs)
  show ?case
  proof (cases "0 \<le> rfind xs c")
    case True
    with Cons.IH have "xs ! nat (rfind xs c) = c" by simp
    with True show ?thesis by (simp add: Let_def nat_add_distrib)
  next
    case False
    with Cons.prems show ?thesis by (simp add: Let_def split: if_splits)
  qed
qed

lemma splitext_loop_cases:
  "splitext_loop p d f = (p, []) \<or> splitext_loop p d f = (take (nat d) p, drop (nat d) p)"
  by (induction p d f rule: splitext_loop.induct) (simp split: if_splits)

text \<open>The extension is empty, or the path is cut at its last dot.\<close>

lemma splitext_cases:
  "splitext p = (p, []) \<or>
   (0 \<le> rfind p 46 \<and> splitext p = (take (nat (rfind p 46)) p, drop (nat (rfind p 46)) p))"
proof (cases "rfind p 47 < rfind p 46")
  case True
  moreover have "- 1 \<le> rfind p 47" using rfind_bounds [of p 47] by simp
  ultimately have "0 \<le> rfind p 46" by simp
  with True splitext_loop_cases [of p "rfind p 46" "rfind p 47 + 1"] show ?thesis
    by (auto simp: splitext_def Let_def)
next
  case False
  then show ?thesis by (simp add: splitext_def Let_def)
qed

lemma splitext_append: "fst (splitext p) @ snd (splitext p) = p"
  using splitext_cases [of p] by auto

lemma splitext_ext: "snd (splitext p) = [] \<or> hd (snd (splitext p)) = 46"
proof -
  from splitext_cases [of p] show ?thesis
  proof
    assume "splitext p = (p, [])"
    then show ?thesis by simp
  next
    assume a: "0 \<le> rfind p 46 \<and>
      splitext p = (take (nat (rfind p 46)) p, drop (nat (rfind p 46)) p)"
    then have lt: "nat (rfind p 46) < length p" using rfind_bounds [of p 46] by linarith
    from a have "p ! nat (rfind p 46) = 46" by (simp add: rfind_nth)
    with lt a show ?thesis by (simp add: hd_drop_conv_nth)
  qed
qed

text \<open>
  The path of the normalized audio is never the input path: an extension
  starts with a dot, the suffix \<^verbatim>\<open>_converted.wav\<close> does not.
\<close>

lemma output_wav_file_neq_input: "output_wav_file_of p \<noteq> p"
proof
  assume "output_wav_file_of p = p"
  then have "fst (splitext p) @ ustr ''_converted.wav'' = fst (splitext p) @ snd (splitext p)"
    by (simp add: output_wav_file_of_def splitext_append)
  then have e: "snd (splitext p) = ustr ''_converted.wav''" by simp
  then have "hd (snd (splitext p)) = 95" by (simp add: ustr_def)
  with e splitext_ext [of p] show False by (simp add: ustr_def)
qed

lemma output_wav_file_last: "last (output_wav_file_of p) = 118" "output_wav_file_of p \<noteq> []"
  by (simp_all add: output_wav_file_of_def ustr_def)

lemma output_wav_file_neq_txt:
  "output_wav_file_of p \<noteq> ustr ''output.txt''"
  "output_wav_file_of p \<noteq> ustr ''transcript.txt''"
proof -
  have "last (ustr ''output.txt'') = 116" "last (ustr ''transcript.txt'') = 116"
    by (simp_all add: ustr_def)
  with output_wav_file_last(1) [of p] show "output_wav_file_of p \<noteq> ustr ''output.txt''"
    "output_wav_file_of p \<noteq> ustr ''transcript.txt''"
    by auto
qed

subsection \<open>The loop over the lines\<close>

text \<open>One turn of the loop on a line that holds a frame.\<close>

lemma loop_step:
  assumes "line \<noteq> []" "line_text E line = Some t"
  shows "iter_lines_loop E acc (line # rest) =
     (if line_done E line then Inr (acc @ t) else iter_lines_loop E (acc @ t) rest)"
proof -
  from assms obtain j where j: "frame_of E line = Some j" "frame_response j = Some t"
    by (auto simp: line_text_def split: option.splits)
  then obtain s where s: "utf8_decode E line = Some s" "json_loads E s = Some j"
    by (auto simp: frame_of_def split: option.splits)
  from j(2) obtain kvs where kvs: "j = JObj kvs"
    by (cases j) auto
  show ?thesis
    using assms(1) j s kvs
    by (auto simp: line_done_def split: option.splits json.splits)
qed

lemma loop_accumulated:
  "\<forall>l\<in>set lines. line_text E l \<noteq> None \<Longrightarrow>
   iter_lines_loop E acc lines = Inr (acc @ accumulated E lines)"
proof (induction lines arbitrary: acc)
  case Nil
  then show ?case by simp
next
  case (Cons l ls)
  show ?case
  proof (cases "l = []")
    case True
    with Cons show ?thesis by (simp add: line_text_def line_done_def)
  next
    case False
    from Cons.prems obtain t where t: "line_text E l = Some t" by auto
    from Cons.prems have "\<forall>l\<in>set ls. line_text E l \<noteq> None" by simp
    then have "iter_lines_loop E (acc @ t) ls = Inr ((acc @ t) @ accumulated E ls)"
      by (rule Cons.IH)
    with False t show ?thesis by (simp add: loop_step del: iter_lines_loop.simps)
  qed
qed

lemma loop_prefix:
  "\<forall>l\<in>set pre. line_text E l \<noteq> None \<and> \<not> line_done E l \<Longrightarrow>
   iter_lines_loop E acc (pre @ xs) = iter_lines_loop E (acc @ accumulated E pre) xs"
proof (induction pre arbitrary: acc)
  case Nil
  then show ?case by simp
next
  case (Cons l ls)
  show ?case
  proof (cases "l = []")
    case True
    with Cons show ?thesis by (simp add: line_text_def line_done_def)
  next
    case False
    from Cons.prems obtain t where t: "line_text E l = Some t" and d: "\<not> line_done E l"
      by auto
    from Cons.prems have "\<forall>l\<in>set ls. line_text E l \<noteq> None \<and> \<not> line_done E l" by simp
    then have "iter_lines_loop E (acc @ t) (ls @ xs) =
        iter_lines_loop E ((acc @ t) @ accumulated E ls) xs"
      by (rule Cons.IH)
    with False t d show ?thesis by (simp add: loop_step del: iter_lines_loop.simps)
  qed
qed

lemma loop_bad_line:
  assumes "bad \<noteq> []" "utf8_decode E bad = Some s" "json_loads E s = None"
  shows "iter_lines_loop E acc (bad # rest) = Inl JSONDecodeError"
  using assms by simp

text \<open>The line the handler of \<^verbatim>\<open>JSONDecodeError\<close> finds the loop at.\<close>

lemma line_text_not_json: "line_text E l \<noteq> None \<Longrightarrow> \<not> not_json E l"
  by (auto simp: line_text_def not_json_def frame_of_def split: option.splits if_splits)

lemma failing_line_index:
  assumes "\<forall>l\<in>set pre. line_text E l \<noteq> None"
    and "bad \<noteq> []" "utf8_decode E bad = Some s" "json_loads E s = None"
  shows "length (takeWhile (\<lambda>l. \<not> not_json E l) (pre @ bad # rest)) = length pre"
proof -
  from assms(1) have "\<forall>l\<in>set pre. \<not> not_json E l"
    using line_text_not_json by blast
  moreover from assms(2-4) have "not_json E bad" by (simp add: not_json_def)
  ultimately show ?thesis by (simp add: takeWhile_append2)
qed

text \<open>
  When the loop raises \<^verbatim>\<open>JSONDecodeError\<close>, it has taken every line before the
  first line that does not parse, and holds that line.
\<close>

lemma json_get_exn: "json_get j k d = Inl e \<Longrightarrow> e = AttributeError"
  by (cases j) auto

lemma str_iadd_exn: "str_iadd s j = Inl e \<Longrightarrow> e = TypeError"
  by (cases j) auto

lemma json_error_at_first_bad_line:
  "iter_lines_loop E acc lines = Inl JSONDecodeError \<Longrightarrow>
   \<exists>bad rest acc'.
     lines = takeWhile (\<lambda>l. \<not> not_json E l) lines @ bad # rest \<and> not_json E bad \<and>
     (\<forall>xs. iter_lines_loop E acc (takeWhile (\<lambda>l. \<not> not_json E l) lines @ xs) =
           iter_lines_loop E acc' xs)"
proof (induction lines arbitrary: acc)
  case Nil
  then show ?case by simp
next
  case (Cons l ls)
  show ?case
  proof (cases "not_json E l")
    case True
    then show ?thesis by auto
  next
    case False
    from Cons.prems False obtain acc1 where
      1: "iter_lines_loop E acc1 ls = Inl JSONDecodeError"
      and 2: "\<forall>xs. iter_lines_loop E acc (l # xs) = iter_lines_loop E acc1 xs"
      by (auto simp: not_json_def split: if_splits option.splits sum.splits
          dest: json_get_exn str_iadd_exn)
    from Cons.IH [OF 1] obtain bad rest acc' where
      3: "ls = takeWhile (\<lambda>l. \<not> not_json E l) ls @ bad # rest" "not_json E bad"
        "\<forall>xs. iter_lines_loop E acc1 (takeWhile (\<lambda>l. \<not> not_json E l) ls @ xs) =
           iter_lines_loop E acc' xs"
      by blast
    from False 2 3 show ?thesis
      by (intro exI [of _ bad] exI [of _ rest] exI [of _ acc']) (simp del: iter_lines_loop.simps)
  qed
qed

subsection \<open>The summarizer with a server\<close>

text \<open>What \<^verbatim>\<open>summarize_with_model\<close> does with the response of the server.\<close>

lemma summarize_body_request:
  assumes "m \<noteq> ustr ''ollama-not-available''"
    and "http_post E (OLLAMA_SERVER_URL E @ ustr ''/api/generate'') m (prompt_of c t) = Responds r"
  shows "summarize_body h E m c t w =
    (if status_code r = 200 then
       (case iter_lines_loop E [] (iter_lines r) of
          Inr full_response \<Rightarrow> Inr full_response
        | Inl e \<Rightarrow>
            if e = JSONDecodeError then
              (case text_in_handler E r of
                 Inl e' \<Rightarrow> Inl e'
               | Inr response_text \<Rightarrow>
                   Inr (ustr ''Failed to parse the response from the server. Raw response: '' @
                        response_text))
            else Inl e)
     else
       Inr ([10060] @ ustr '' Error: Failed to summarize with model '' @ m @
            ustr ''. Server returned: '' @ resp_text r @ nl @ nl @
            ustr ''Transcript is still available for download below.''),
     w\<lparr>post_log := post_log w @
        [(OLLAMA_SERVER_URL E @ ustr ''/api/generate'', m, prompt_of c t)]\<rparr>)"
  using assms by (simp add: summarize_body_def Let_def split: sum.splits)

text \<open>The summarizer touches neither the files nor the shell.\<close>

lemma summarize_body_world:
  "files (snd (summarize_body h E m c t w)) = files w \<and>
   cmd_log (snd (summarize_body h E m c t w)) = cmd_log w"
  by (simp add: summarize_body_def Let_def split: post_outcome.splits sum.splits)

text \<open>An empty summary comes from a stream with status 200 only.\<close>

lemma summarize_body_empty:
  assumes "summarize_body h E m c t w = (Inr [], w')" and "h \<noteq> []"
  shows "m \<noteq> ustr ''ollama-not-available'' \<and>
    (\<exists>r. http_post E (OLLAMA_SERVER_URL E @ ustr ''/api/generate'') m (prompt_of c t) = Responds r \<and>
         status_code r = 200 \<and> iter_lines_loop E [] (iter_lines r) = Inr [])"
proof -
  from assms have m: "m \<noteq> ustr ''ollama-not-available''"
    by (auto simp: summarize_body_def)
  show ?thesis
  proof (cases "http_post E (OLLAMA_SERVER_URL E @ ustr ''/api/generate'') m (prompt_of c t)")
    case (Raises e)
    with assms(1) m show ?thesis by (simp add: summarize_body_def Let_def)
  next
    case (Responds r)
    from assms(1) show ?thesis
      unfolding summarize_body_request [OF m Responds]
      using m Responds
      by (auto simp: ustr_def split: if_splits sum.splits)
  qed
qed

subsection \<open>The shell, the files and the two pipelines\<close>

lemma subprocess_run_eq:
  "subprocess_run E cmd w =
     (if fst (shell E cmd (files w)) \<noteq> 0
      then Inl (CalledProcessError (fst (shell E cmd (files w))) cmd)
      else Inr (),
      w\<lparr>files := snd (shell E cmd (files w)), cmd_log := cmd_log w @ [cmd]\<rparr>)"
  by (simp add: subprocess_run_def Let_def split: prod.splits)

lemma os_remove_eq:
  "os_remove p w =
    (if files w p = None then (Inl FileNotFoundError, w)
     else (Inr (), w\<lparr>files := (files w)(p := None)\<rparr>))"
  by (auto simp: os_remove_def split: option.splits)

lemma preprocess_audio_file_eq:
  "preprocess_audio_file E p w =
     (if ffmpeg_status E p (files w) \<noteq> 0
      then Inl (CalledProcessError (ffmpeg_status E p (files w)) (ffmpeg_line p))
      else Inr (output_wav_file_of p),
      w\<lparr>files := files_after_ffmpeg E p (files w), cmd_log := cmd_log w @ [ffmpeg_line p]\<rparr>)"
  by (simp add: preprocess_audio_file_def subprocess_run_eq Let_def ffmpeg_status_def
      files_after_ffmpeg_def ffmpeg_line_def)

lemma st_preprocess_audio_file_eq:
  "st_preprocess_audio_file E p w =
     (if ffmpeg_status E p (files w) \<noteq> 0 then Inr None else Inr (Some (output_wav_file_of p)),
      w\<lparr>files := files_after_ffmpeg E p (files w), cmd_log := cmd_log w @ [ffmpeg_line p]\<rparr>)"
  by (simp add: st_preprocess_audio_file_def subprocess_run_eq Let_def ffmpeg_status_def
      files_after_ffmpeg_def ffmpeg_line_def)

text \<open>The exceptions of the inner \<^verbatim>\<open>try\<close> are the two its handler names.\<close>

lemma st_whisper_try_exn:
  "fst (st_whisper_try E cmd wav out w) = Inl e \<Longrightarrow>
   (\<exists>rc c. e = CalledProcessError rc c) \<or> e = FileNotFoundError"
  by (auto simp: st_whisper_try_def subprocess_run_eq open_read_def os_remove_eq
      split: if_splits option.splits)

lemma st_whisper_try_nonzero:
  "fst (shell E cmd (files w)) \<noteq> 0 \<Longrightarrow>
   st_whisper_try E cmd wav out w =
     (Inl (CalledProcessError (fst (shell E cmd (files w))) cmd),
      w\<lparr>files := snd (shell E cmd (files w)), cmd_log := cmd_log w @ [cmd]\<rparr>)"
  by (simp add: st_whisper_try_def subprocess_run_eq)

lemma st_whisper_try_keeps:
  assumes "files w q \<noteq> None"
    and "\<forall>cmd fs. fs q \<noteq> None \<longrightarrow> snd (shell E cmd fs) q \<noteq> None"
    and "q \<noteq> wav" and "q \<noteq> out"
  shows "files (snd (st_whisper_try E cmd wav out w)) q \<noteq> None"
  using assms
  by (auto simp: st_whisper_try_def subprocess_run_eq open_read_def os_remove_eq
      split: option.splits)

lemma st_transcribe_audio_never_raises:
  "\<exists>r. fst (st_transcribe_audio E p wm w) = Inr r"
proof (cases "ffmpeg_status E p (files w) \<noteq> 0")
  case True
  then show ?thesis by (simp add: st_transcribe_audio_def st_preprocess_audio_file_eq)
next
  case False
  let ?w1 = "w\<lparr>files := files_after_ffmpeg E p (files w),
    cmd_log := cmd_log w @ [ffmpeg_line p]\<rparr>"
  let ?t = "st_whisper_try E (whisper_command wm (output_wav_file_of p) (ustr ''output.txt''))
              (output_wav_file_of p) (ustr ''output.txt'') ?w1"
  show ?thesis
  proof (cases "fst ?t")
    case (Inl e)
    from st_whisper_try_exn [OF Inl] Inl False show ?thesis
      by (cases ?t) (auto simp: st_transcribe_audio_def st_preprocess_audio_file_eq
          output_wav_file_last Let_def)
  next
    case (Inr t)
    with False show ?thesis
      by (cases ?t) (auto simp: st_transcribe_audio_def st_preprocess_audio_file_eq
          output_wav_file_last Let_def)
  qed
qed

lemma st_transcribe_audio_engine_failure:
  assumes "ffmpeg_status E p (files w) = 0" "whisper_status E p wm (files w) \<noteq> 0"
  shows "st_transcribe_audio E p wm w =
     (Inr (Some (whisper_unavailable p wm)),
      w\<lparr>files := files_after_whisper E p wm (files w),
        cmd_log := cmd_log w @ [ffmpeg_line p, whisper_line p wm]\<rparr>)"
  using assms
  by (simp add: st_transcribe_audio_def st_preprocess_audio_file_eq output_wav_file_last Let_def
      st_whisper_try_nonzero whisper_status_def files_after_whisper_def whisper_line_def)

lemma st_transcribe_audio_success:
  assumes "ffmpeg_status E p (files w) = 0" "whisper_status E p wm (files w) = 0"
    and "files_after_whisper E p wm (files w) (ustr ''output.txt'') = Some t"
    and "files_after_whisper E p wm (files w) (output_wav_file_of p) \<noteq> None"
  shows "st_transcribe_audio E p wm w =
    (Inr (Some t),
     w\<lparr>files := (files_after_whisper E p wm (files w))
          (output_wav_file_of p := None, ustr ''output.txt'' := None),
       cmd_log := cmd_log w @ [ffmpeg_line p, whisper_line p wm]\<rparr>)"
  using assms output_wav_file_neq_txt(1) [of p]
  by (auto simp: st_transcribe_audio_def st_preprocess_audio_file_eq output_wav_file_last Let_def
      st_whisper_try_def subprocess_run_eq open_read_def os_remove_eq
      whisper_status_def files_after_whisper_def whisper_line_def)

lemma whisper_unavailable_names:
  "sublist wm (whisper_unavailable p wm) \<and> sublist (basename p) (whisper_unavailable p wm)"
proof -
  let ?b = "nl @ ustr ''**Model requested:** ''"
  let ?c = "nl @ nl @ ustr ''For a working demo, try the Railway deployment with Docker.''"
  have e: "whisper_unavailable p wm = whisper_unavailable_head @ basename p @ ?b @ wm @ ?c"
    by (simp add: whisper_unavailable_def)
  have "sublist wm ((whisper_unavailable_head @ basename p @ ?b) @ wm @ ?c)"
    by (rule sublist_appendI)
  moreover have "sublist (basename p) (whisper_unavailable_head @ basename p @ (?b @ wm @ ?c))"
    by (rule sublist_appendI)
  ultimately show ?thesis unfolding e by simp
qed

lemma translate_and_summarize_ffmpeg_failure:
  assumes "ffmpeg_status E p (files w) \<noteq> 0"
  shows "translate_and_summarize E p c wm m w =
     (Inl (CalledProcessError (ffmpeg_status E p (files w)) (ffmpeg_line p)),
      w\<lparr>files := files_after_ffmpeg E p (files w), cmd_log := cmd_log w @ [ffmpeg_line p]\<rparr>)"
  using assms by (simp add: translate_and_summarize_def preprocess_audio_file_eq)

lemma translate_and_summarize_engine_failure:
  assumes "ffmpeg_status E p (files w) = 0" "whisper_status E p wm (files w) \<noteq> 0"
  shows "translate_and_summarize E p c wm m w =
     (Inl (CalledProcessError (whisper_status E p wm (files w)) (whisper_line p wm)),
      w\<lparr>files := files_after_whisper E p wm (files w),
        cmd_log := cmd_log w @ [ffmpeg_line p, whisper_line p wm]\<rparr>)"
  using assms
  by (simp add: translate_and_summarize_def preprocess_audio_file_eq subprocess_run_eq
      whisper_status_def files_after_whisper_def whisper_line_def Let_def)

text \<open>
  Once both tools have left with status 0 and the capture file is there, the
  rest of \<^verbatim>\<open>translate_and_summarize\<close> is the summary and the clean-up.
\<close>

lemma translate_and_summarize_after_engine:
  assumes "ffmpeg_status E p (files w) = 0" "whisper_status E p wm (files w) = 0"
    and "files_after_whisper E p wm (files w) (ustr ''output.txt'') = Some t"
  shows "translate_and_summarize E p c wm m w =
     (case summarize_with_model E m c t
             (open_write (ustr ''transcript.txt'') t
               (w\<lparr>files := files_after_whisper E p wm (files w),
                  cmd_log := cmd_log w @ [ffmpeg_line p, whisper_line p wm]\<rparr>)) of
        (Inl e, w4) \<Rightarrow> (Inl e, w4)
      | (Inr summary, w4) \<Rightarrow>
          (case os_remove (output_wav_file_of p) w4 of
             (Inl e, w5) \<Rightarrow> (Inl e, w5)
           | (Inr u, w5) \<Rightarrow>
              (case os_remove (ustr ''output.txt'') w5 of
                 (Inl e, w6) \<Rightarrow> (Inl e, w6)
               | (Inr u, w6) \<Rightarrow> (Inr (summary, ustr ''transcript.txt''), w6))))"
  using assms
  by (simp add: translate_and_summarize_def preprocess_audio_file_eq subprocess_run_eq
      whisper_status_def files_after_whisper_def whisper_line_def open_read_def Let_def)

lemma translate_and_summarize_transcript_file:
  assumes "ffmpeg_status E p (files w) = 0" "whisper_status E p wm (files w) = 0"
    and "files_after_whisper E p wm (files w) (ustr ''output.txt'') = Some t"
  shows "files (snd (translate_and_summarize E p c wm m w)) (ustr ''transcript.txt'') = Some t"
proof -
  let ?w3 = "open_write (ustr ''transcript.txt'') t
     (w\<lparr>files := files_after_whisper E p wm (files w),
        cmd_log := cmd_log w @ [ffmpeg_line p, whisper_line p wm]\<rparr>)"
  let ?s = "summarize_with_model E m c t ?w3"
  have f4: "files (snd ?s) = files ?w3"
    by (simp add: summarize_with_model_def summarize_body_world)
  have ne: "ustr ''transcript.txt'' \<noteq> ustr ''output.txt''" by (simp add: ustr_def)
  have t3: "files ?w3 (ustr ''transcript.txt'') = Some t" by (simp add: open_write_def)
  obtain r w4 where s: "?s = (r, w4)" by (cases ?s)
  with f4 t3 have t4: "files w4 (ustr ''transcript.txt'') = Some t" by simp
  show ?thesis
  proof (cases r)
    case (Inl e)
    with s t4 show ?thesis
      unfolding translate_and_summarize_after_engine [OF assms] by simp
  next
    case (Inr summary)
    with s t4 ne output_wav_file_neq_txt [of p] show ?thesis
      unfolding translate_and_summarize_after_engine [OF assms]
      by (auto simp: os_remove_eq)
  qed
qed

lemma translate_and_summarize_returns:
  assumes "translate_and_summarize E p c wm m w = (Inr (s, tf), w')"
  shows "ffmpeg_status E p (files w) = 0 \<and> whisper_status E p wm (files w) = 0 \<and>
    (\<exists>t. files_after_whisper E p wm (files w) (ustr ''output.txt'') = Some t) \<and>
    tf = ustr ''transcript.txt''"
proof -
  have 1: "ffmpeg_status E p (files w) = 0"
    using assms translate_and_summarize_ffmpeg_failure [of E p w c wm m] by auto
  have 2: "whisper_status E p wm (files w) = 0"
    using assms 1 translate_and_summarize_engine_failure [of E p w wm c m] by auto
  from assms 1 2 show ?thesis
    by (auto simp: translate_and_summarize_def preprocess_audio_file_eq subprocess_run_eq
        whisper_status_def files_after_whisper_def whisper_line_def open_read_def Let_def
        split: option.splits prod.splits sum.splits)
qed

lemma translate_and_summarize_returns_file:
  assumes "translate_and_summarize E p c wm m w = (Inr (s, tf), w')"
  shows "tf = ustr ''transcript.txt'' \<and> (\<exists>t. files w' tf = Some t)"
proof -
  from translate_and_summarize_returns [OF assms] obtain t where
    h: "ffmpeg_status E p (files w) = 0" "whisper_status E p wm (files w) = 0"
      "files_after_whisper E p wm (files w) (ustr ''output.txt'') = Some t"
      "tf = ustr ''transcript.txt''"
    by blast
  from translate_and_summarize_transcript_file [OF h(1-3), of c m] assms h(4)
  show ?thesis by simp
qed

text \<open>The summary the pipeline returns is the one \<^verbatim>\<open>summarize_with_model\<close> gave.\<close>

lemma translate_and_summarize_summary:
  assumes "translate_and_summarize E p c wm m w = (Inr (s, tf), w')"
  shows "\<exists>t w3 w4. summarize_with_model E m c t w3 = (Inr s, w4)"
proof -
  from translate_and_summarize_returns [OF assms] obtain t where
    h: "ffmpeg_status E p (files w) = 0" "whisper_status E p wm (files w) = 0"
      "files_after_whisper E p wm (files w) (ustr ''output.txt'') = Some t"
    by blast
  let ?w3 = "open_write (ustr ''transcript.txt'') t
     (w\<lparr>files := files_after_whisper E p wm (files w),
        cmd_log := cmd_log w @ [ffmpeg_line p, whisper_line p wm]\<rparr>)"
  obtain r w4 where r: "summarize_with_model E m c t ?w3 = (r, w4)"
    by (cases "summarize_with_model E m c t ?w3")
  from assms have "r = Inr s"
    unfolding translate_and_summarize_after_engine [OF h] r
    by (auto split: sum.splits prod.splits)
  with r show ?thesis by blast
qed

lemma translate_and_summarize_success:
  assumes "ffmpeg_status E p (files w) = 0" "whisper_status E p wm (files w) = 0"
    and "files_after_whisper E p wm (files w) (ustr ''output.txt'') = Some t"
    and "files_after_whisper E p wm (files w) (output_wav_file_of p) \<noteq> None"
    and "summarize_with_model E m c t
           (open_write (ustr ''transcript.txt'') t
             (w\<lparr>files := files_after_whisper E p wm (files w),
                cmd_log := cmd_log w @ [ffmpeg_line p, whisper_line p wm]\<rparr>)) = (Inr s, w4)"
  shows "translate_and_summarize E p c wm m w =
    (Inr (s, ustr ''transcript.txt''),
     w4\<lparr>files := (files w4)(output_wav_file_of p := None, ustr ''output.txt'' := None)\<rparr>)"
proof -
  let ?w3 = "open_write (ustr ''transcript.txt'') t
             (w\<lparr>files := files_after_whisper E p wm (files w),
                cmd_log := cmd_log w @ [ffmpeg_line p, whisper_line p wm]\<rparr>)"
  have "files (snd (summarize_with_model E m c t ?w3)) = files ?w3"
    by (simp add: summarize_with_model_def summarize_body_world)
  with assms(5) have f4:
    "files w4 = (files_after_whisper E p wm (files w))(ustr ''transcript.txt'' \<mapsto> t)"
    by (simp add: open_write_def)
  have ne: "ustr ''transcript.txt'' \<noteq> ustr ''output.txt''" by (simp add: ustr_def)
  show ?thesis
    unfolding translate_and_summarize_after_engine [OF assms(1-3)] assms(5)
    using assms(3,4) f4 ne output_wav_file_neq_txt [of p]
    by (auto simp: os_remove_eq)
qed

text \<open>
  The uploaded file outlives \<^verbatim>\<open>transcribe_audio\<close> when the tools leave it in
  place, and then the clean-up of \<^verbatim>\<open>main\<close> removes the transcript file.
\<close>

lemma st_transcribe_audio_keeps:
  assumes "files w q \<noteq> None"
    and "\<forall>cmd fs. fs q \<noteq> None \<longrightarrow> snd (shell E cmd fs) q \<noteq> None"
    and "q \<noteq> ustr ''output.txt''"
  shows "files (snd (st_transcribe_audio E q wm w)) q \<noteq> None"
proof -
  let ?w1 = "w\<lparr>files := files_after_ffmpeg E q (files w),
    cmd_log := cmd_log w @ [ffmpeg_line q]\<rparr>"
  let ?t = "st_whisper_try E (whisper_command wm (output_wav_file_of q) (ustr ''output.txt''))
              (output_wav_file_of q) (ustr ''output.txt'') ?w1"
  from assms(1,2) have k1: "files ?w1 q \<noteq> None"
    by (simp add: files_after_ffmpeg_def)
  have nw: "q \<noteq> output_wav_file_of q" using output_wav_file_neq_input [of q] by auto
  from k1 assms(2) nw assms(3) have k2: "files (snd ?t) q \<noteq> None"
    by (rule st_whisper_try_keeps)
  obtain r w2 where t: "?t = (r, w2)" by (cases ?t)
  with k2 have k3: "files w2 q \<noteq> None" by simp
  show ?thesis
  proof (cases "ffmpeg_status E q (files w) \<noteq> 0")
    case True
    with k1 show ?thesis by (simp add: st_transcribe_audio_def st_preprocess_audio_file_eq)
  next
    case False
    with t k3 show ?thesis
      by (simp add: st_transcribe_audio_def st_preprocess_audio_file_eq output_wav_file_last
          Let_def split: sum.splits exn.splits)
  qed
qed

lemma st_main_process_removes_transcript_file:
  assumes "files w tmp \<noteq> None"
    and "\<forall>cmd fs. fs tmp \<noteq> None \<longrightarrow> snd (shell E cmd fs) tmp \<noteq> None"
    and "tmp \<noteq> ustr ''output.txt''"
    and "st_main_process E tmp c wm m w = (Inr (Some r), w')"
  shows "files w' (ustr ''transcript.txt'') = None"
proof -
  obtain r1 w1 where t: "st_transcribe_audio E tmp wm w = (r1, w1)"
    by (cases "st_transcribe_audio E tmp wm w")
  with st_transcribe_audio_keeps [OF assms(1-3), of wm] have k1: "files w1 tmp \<noteq> None" by simp
  from assms(4) t obtain transcript where r1: "r1 = Inr (Some transcript)"
    and ne: "transcript \<noteq> []"
    by (auto simp: st_main_process_def split: sum.splits option.splits if_splits)
  let ?w2 = "open_write (ustr ''transcript.txt'') transcript w1"
  obtain r3 w3 where s: "st_summarize_with_model E m c transcript ?w2 = (r3, w3)"
    by (cases "st_summarize_with_model E m c transcript ?w2")
  have "files (snd (st_summarize_with_model E m c transcript ?w2)) = files ?w2"
    by (simp add: st_summarize_with_model_def summarize_body_world)
  with s have f3: "files w3 = files ?w2" by simp
  with k1 have k3: "files w3 tmp \<noteq> None" by (simp add: open_write_def)
  from assms(4) t r1 ne s obtain summary where r3: "r3 = Inr summary"
    by (auto simp: st_main_process_def Let_def split: sum.splits)
  from assms(4) t r1 ne s r3 k3 show ?thesis
    by (auto simp: st_main_process_def Let_def os_remove_eq os_path_exists_def split: if_splits)
qed

subsection \<open>The concrete environment\<close>

lemma demo_a_mp3: "output_wav_file_of (ustr ''a.mp3'') = ustr ''a_converted.wav''"
  by (simp add: output_wav_file_of_def splitext_def ustr_def)

lemma demo_basename: "basename (ustr ''/tmp/a.mp3'') = ustr ''a.mp3''"
  by (simp add: basename_def ustr_def)

lemma demo_ffmpeg_status:
  "ffmpeg_status (demo_env (demo_shell rc rc') a) p fs = rc"
  by (simp add: ffmpeg_status_def demo_env_def demo_shell_def ffmpeg_line_def ffmpeg_cmd_def
      ustr_def)

lemma demo_files_after_ffmpeg:
  "files_after_ffmpeg (demo_env (demo_shell rc rc') a) p fs =
     (if rc = 0 then fs(ustr ''a_converted.wav'' \<mapsto> ustr ''RIFF'') else fs)"
  by (simp add: files_after_ffmpeg_def demo_env_def demo_shell_def ffmpeg_line_def ffmpeg_cmd_def
      ustr_def)

lemma demo_whisper_status:
  "whisper_status (demo_env (demo_shell rc rc') a) p wm fs = rc'"
  by (simp add: whisper_status_def demo_env_def demo_shell_def whisper_line_def
      whisper_command_def ustr_def)

lemma demo_files_after_whisper:
  "files_after_whisper (demo_env (demo_shell rc rc') a) p wm fs =
     (files_after_ffmpeg (demo_env (demo_shell rc rc') a) p fs)
       (ustr ''output.txt'' \<mapsto> (if rc' = 0 then ustr ''hello world'' else []))"
  by (simp add: files_after_whisper_def demo_env_def demo_shell_def whisper_line_def
      whisper_command_def ustr_def)

lemma demo_shell_keeps: "fs q \<noteq> None \<Longrightarrow> snd (demo_shell rc rc' cmd fs) q \<noteq> None"
  by (auto simp: demo_shell_def)

lemma demo_capture:
  "files_after_whisper (demo_env (demo_shell 0 0) a) (ustr ''a.mp3'') (ustr ''small'')
     (files demo_world) (ustr ''output.txt'') = Some (ustr ''hello world'')"
  by (simp add: demo_files_after_whisper)

lemma demo_wav:
  "files_after_whisper (demo_env (demo_shell 0 0) a) (ustr ''a.mp3'') (ustr ''small'')
     (files demo_world) (output_wav_file_of (ustr ''a.mp3'')) \<noteq> None"
  by (simp add: demo_files_after_whisper demo_files_after_ffmpeg demo_a_mp3; simp add: ustr_def)

lemma demo_frame_A: "frame_of (demo_env sh a) line_A = Some frame_A"
  by (simp add: frame_of_def demo_env_def demo_decode_def demo_loads_def line_A_def)

lemma demo_frame_B: "frame_of (demo_env sh a) line_B = Some frame_B"
  by (simp add: frame_of_def demo_env_def demo_decode_def demo_loads_def line_A_def line_B_def)

lemma demo_frame_C: "frame_of (demo_env sh a) line_C = Some frame_C"
  by (simp add: frame_of_def demo_env_def demo_decode_def demo_loads_def line_A_def line_B_def
      line_C_def)

lemma line_A_text: "frame_of E line_A = Some frame_A \<Longrightarrow>
    line_text E line_A = Some (ustr ''A'') \<and> \<not> line_done E line_A \<and> line_A \<noteq> []"
  by (simp add: line_text_def line_done_def frame_A_def line_A_def ustr_def)

lemma line_B_text: "frame_of E line_B = Some frame_B \<Longrightarrow>
    line_text E line_B = Some (ustr ''B'') \<and> line_done E line_B \<and> line_B \<noteq> []"
  by (simp add: line_text_def line_done_def frame_B_def line_B_def ustr_def)

lemma line_C_text: "frame_of E line_C = Some frame_C \<Longrightarrow>
    line_text E line_C = Some (ustr ''C'') \<and> \<not> line_done E line_C \<and> line_C \<noteq> []"
  by (simp add: line_text_def line_done_def frame_C_def line_C_def ustr_def)

lemma demo_response_simps:
  "status_code (demo_response st ps) = st"
  "raw_stream (demo_response st ps) = ps"
  "decode_text (demo_response st ps) = map of_char"
  by (simp_all add: demo_response_def)

lemma silent_lines: "iter_lines (demo_response st []) = []"
  by (simp add: iter_lines_def demo_response_simps)

lemma crashed_text:
  "resp_text (demo_response st [''model runner crashed'']) = ustr ''model runner crashed''"
  by (simp add: resp_text_def content_text_def demo_response_simps ustr_def)

lemma abc_stream_lines:
  "status_code abc_stream = 200" "iter_lines abc_stream = [line_A, line_B, line_C]"
  by (simp_all add: abc_stream_def iter_lines_def demo_response_simps splitlines_def
      line_A_def line_B_def line_C_def LF_def CR_def Let_def)

lemma broken_stream_lines:
  "status_code broken_stream = 200"
  "iter_lines broken_stream = [line_A, line_C, ''not json'', line_B]"
  "unread_at broken_stream 2 = Some (line_B @ [LF])"
  by (simp_all add: broken_stream_def iter_lines_def unread_at_def demo_response_simps
      splitlines_def line_A_def line_B_def line_C_def LF_def CR_def Let_def)

lemma broken_tail_lines:
  "status_code broken_tail = 200"
  "iter_lines broken_tail = [line_A, ''not json'']"
  "unread_at broken_tail 1 = None"
  by (simp_all add: broken_tail_def iter_lines_def unread_at_def demo_response_simps
      splitlines_def line_A_def LF_def CR_def Let_def)

lemma demo_not_json: "not_json (demo_env sh a) ''not json''"
  by (simp add: not_json_def demo_env_def demo_decode_def demo_loads_def line_A_def line_B_def
      line_C_def ustr_def)

lemma demo_cannot_connect:
  "summarize_body h (demo_env sh (Raises (ustr ''Connection refused''))) (ustr ''llama3'') [] t w =
    (Inr ([10060] @ ustr '' Error: Cannot connect to Ollama server: Connection refused'' @ nl @
          nl @ ustr ''Transcript is still available for download below.''),
     w\<lparr>post_log := post_log w @
        [(ustr ''http://localhost:11434/api/generate'', ustr ''llama3'', prompt_of [] t)]\<rparr>)"
  by (simp add: summarize_body_def demo_env_def Let_def ustr_def)

lemma demo_silent:
  "summarize_body h
     (demo_env sh (Responds (demo_response 200 [])))
     (ustr ''llama3'') [] t w =
    (Inr [],
     w\<lparr>post_log := post_log w @
        [(ustr ''http://localhost:11434/api/generate'', ustr ''llama3'', prompt_of [] t)]\<rparr>)"
  by (simp add: summarize_body_def demo_env_def Let_def ustr_def silent_lines
      demo_response_simps)

lemma demo_silent_pipeline:
  "fst (translate_and_summarize
     (demo_env (demo_shell 0 0) (Responds (demo_response 200 [])))
     (ustr ''a.mp3'') [] (ustr ''small'') (ustr ''llama3'') demo_world) =
   Inr ([], ustr ''transcript.txt'')"
  by (subst translate_and_summarize_success [OF _ _ demo_capture demo_wav])
    (simp_all add: demo_ffmpeg_status demo_whisper_status summarize_with_model_def demo_silent)

lemma demo_st_main_process:
  "st_main_process (demo_env (demo_shell 0 0) (Raises (ustr ''Connection refused'')))
      (ustr ''a.mp3'') [] (ustr ''small'') (ustr ''llama3'') demo_world =
    (Inr (Some ([10060] @ ustr '' Error: Cannot connect to Ollama server: Connection refused'' @
                nl @ nl @ ustr ''Transcript is still available for download below.'',
                ustr ''hello world'')),
     \<lparr>files = Map.empty,
      cmd_log = [ffmpeg_line (ustr ''a.mp3''), whisper_line (ustr ''a.mp3'') (ustr ''small'')],
      post_log = [(ustr ''http://localhost:11434/api/generate'', ustr ''llama3'',
                   prompt_of [] (ustr ''hello world''))]\<rparr>)"
proof -
  let ?E = "demo_env (demo_shell 0 0) (Raises (ustr ''Connection refused''))"
  have f: "ffmpeg_status ?E (ustr ''a.mp3'') (files demo_world) = 0"
    by (simp add: demo_ffmpeg_status)
  have wh: "whisper_status ?E (ustr ''a.mp3'') (ustr ''small'') (files demo_world) = 0"
    by (simp add: demo_whisper_status)
  have fs: "(files_after_whisper ?E (ustr ''a.mp3'') (ustr ''small'') (files demo_world))
      (output_wav_file_of (ustr ''a.mp3'') := None, ustr ''output.txt'' := None) =
      [ustr ''a.mp3'' \<mapsto> ustr ''ID3'']"
    by (simp add: demo_files_after_whisper demo_files_after_ffmpeg demo_a_mp3 demo_world_def
        fun_eq_iff; simp add: ustr_def)
  have t: "st_transcribe_audio ?E (ustr ''a.mp3'') (ustr ''small'') demo_world =
    (Inr (Some (ustr ''hello world'')),
     \<lparr>files = [ustr ''a.mp3'' \<mapsto> ustr ''ID3''],
      cmd_log = [ffmpeg_line (ustr ''a.mp3''), whisper_line (ustr ''a.mp3'') (ustr ''small'')],
      post_log = []\<rparr>)"
    unfolding st_transcribe_audio_success [OF f wh demo_capture demo_wav] fs
    by (simp add: demo_world_def)
  show ?thesis
    by (simp add: st_main_process_def t st_summarize_with_model_def demo_cannot_connect
        open_write_def os_remove_eq os_path_exists_def Let_def)
      (auto simp: ustr_def)
qed

lemma demo_url:
  "OLLAMA_SERVER_URL (demo_env sh a) @ ustr ''/api/generate'' =
     ustr ''http://localhost:11434/api/generate''"
  "http_post (demo_env sh a) u m q = a"
  "ustr ''llama3'' \<noteq> ustr ''ollama-not-available''"
  by (simp_all add: demo_env_def ustr_def)

lemma broken_stream_loop:
  "iter_lines_loop (demo_env sh a) [] (iter_lines broken_stream) = Inl JSONDecodeError"
  "text_in_handler (demo_env sh a) broken_stream = Inr (map of_char (line_B @ [LF]))"
proof -
  let ?E = "demo_env sh a"
  have pre: "\<forall>l\<in>set [line_A, line_C]. line_text ?E l \<noteq> None \<and> \<not> line_done ?E l"
    using line_A_text [OF demo_frame_A] line_C_text [OF demo_frame_C] by simp
  have d: "utf8_decode ?E ''not json'' = Some (ustr ''not json'')"
    by (simp add: demo_env_def demo_decode_def ustr_def)
  have j: "json_loads ?E (ustr ''not json'') = None"
    by (simp add: demo_env_def demo_loads_def line_A_def line_B_def line_C_def ustr_def)
  have l: "iter_lines broken_stream = [line_A, line_C] @ ''not json'' # [line_B]"
    by (simp add: broken_stream_lines)
  have "iter_lines_loop ?E [] ([line_A, line_C] @ ''not json'' # [line_B]) =
      iter_lines_loop ?E ([] @ accumulated ?E [line_A, line_C]) (''not json'' # [line_B])"
    using pre by (rule loop_prefix)
  also have "\<dots> = Inl JSONDecodeError"
    using d j by (intro loop_bad_line) simp_all
  finally show "iter_lines_loop ?E [] (iter_lines broken_stream) = Inl JSONDecodeError"
    unfolding l .
  from pre have "\<forall>l\<in>set [line_A, line_C]. line_text ?E l \<noteq> None" by simp
  then have "length (takeWhile (\<lambda>l. \<not> not_json ?E l) ([line_A, line_C] @ ''not json'' # [line_B])) =
      length [line_A, line_C]"
    using d j by (intro failing_line_index) simp_all
  then have idx: "length (takeWhile (\<lambda>l. \<not> not_json ?E l) (iter_lines broken_stream)) = 2"
    unfolding l by simp
  show "text_in_handler ?E broken_stream = Inr (map of_char (line_B @ [LF]))"
    unfolding text_in_handler_def idx broken_stream_lines(3)
    by (simp add: read_text_def content_text_def broken_stream_def demo_response_simps)
qed

lemma broken_tail_loop:
  "iter_lines_loop (demo_env sh a) [] (iter_lines broken_tail) = Inl JSONDecodeError"
  "text_in_handler (demo_env sh a) broken_tail = Inl RuntimeError"
proof -
  let ?E = "demo_env sh a"
  have pre: "\<forall>l\<in>set [line_A]. line_text ?E l \<noteq> None \<and> \<not> line_done ?E l"
    using line_A_text [OF demo_frame_A] by simp
  have d: "utf8_decode ?E ''not json'' = Some (ustr ''not json'')"
    by (simp add: demo_env_def demo_decode_def ustr_def)
  have j: "json_loads ?E (ustr ''not json'') = None"
    by (simp add: demo_env_def demo_loads_def line_A_def line_B_def line_C_def ustr_def)
  have l: "iter_lines broken_tail = [line_A] @ ''not json'' # []"
    by (simp add: broken_tail_lines)
  have "iter_lines_loop ?E [] ([line_A] @ ''not json'' # []) =
      iter_lines_loop ?E ([] @ accumulated ?E [line_A]) (''not json'' # [])"
    using pre by (rule loop_prefix)
  also have "\<dots> = Inl JSONDecodeError"
    using d j by (intro loop_bad_line) simp_all
  finally show "iter_lines_loop ?E [] (iter_lines broken_tail) = Inl JSONDecodeError"
    unfolding l .
  from pre have "\<forall>l\<in>set [line_A]. line_text ?E l \<noteq> None" by simp
  then have "length (takeWhile (\<lambda>l. \<not> not_json ?E l) ([line_A] @ ''not json'' # [])) =
      length [line_A]"
    using d j by (intro failing_line_index) simp_all
  then have idx: "length (takeWhile (\<lambda>l. \<not> not_json ?E l) (iter_lines broken_tail)) = 1"
    unfolding l by simp
  show "text_in_handler ?E broken_tail = Inl RuntimeError"
    unfolding text_in_handler_def idx broken_tail_lines(3)
    by (simp add: read_text_def)
qed

section \<open>The claims\<close>

subsection \<open>C1: the temporary files after an invocation\<close>

text \<open>
  C1 says that the normalized audio file and the capture file \<^verbatim>\<open>output.txt\<close> are
  gone when an invocation returns, also when the transcription engine fails.
  Both pipelines remove the two files after the engine has succeeded only. Run
  on \<^verbatim>\<open>a.mp3\<close> with an engine that leaves with status 1:
  \<^verbatim>\<open>transcribe_audio\<close> of \<^verbatim>\<open>streamlit_app.py\<close> returns its placeholder, and
  \<^verbatim>\<open>a_converted.wav\<close> and \<^verbatim>\<open>output.txt\<close> are still on disk; after
  \<^verbatim>\<open>translate_and_summarize\<close> of \<^verbatim>\<open>main.py\<close>, which raises, they are as well.
\<close>

theorem temp_files_left_after_engine_failure:
  "st_transcribe_audio (demo_env (demo_shell 0 1) (Raises [])) (ustr ''a.mp3'') (ustr ''small'')
      demo_world =
     (Inr (Some (whisper_unavailable (ustr ''a.mp3'') (ustr ''small''))),
      \<lparr>files = [ustr ''a.mp3'' \<mapsto> ustr ''ID3'', ustr ''a_converted.wav'' \<mapsto> ustr ''RIFF'',
                 ustr ''output.txt'' \<mapsto> []],
       cmd_log = [ffmpeg_line (ustr ''a.mp3''), whisper_line (ustr ''a.mp3'') (ustr ''small'')],
       post_log = []\<rparr>)
   \<and> output_wav_file_of (ustr ''a.mp3'') = ustr ''a_converted.wav''
   \<and> files (snd (st_transcribe_audio (demo_env (demo_shell 0 1) (Raises [])) (ustr ''a.mp3'')
        (ustr ''small'') demo_world)) (ustr ''a_converted.wav'') = Some (ustr ''RIFF'')
   \<and> files (snd (st_transcribe_audio (demo_env (demo_shell 0 1) (Raises [])) (ustr ''a.mp3'')
        (ustr ''small'') demo_world)) (ustr ''output.txt'') = Some []
   \<and> files (snd (translate_and_summarize (demo_env (demo_shell 0 1) (Raises [])) (ustr ''a.mp3'')
        [] (ustr ''small'') (ustr ''llama3'') demo_world)) (ustr ''a_converted.wav'') =
      Some (ustr ''RIFF'')
   \<and> files (snd (translate_and_summarize (demo_env (demo_shell 0 1) (Raises [])) (ustr ''a.mp3'')
        [] (ustr ''small'') (ustr ''llama3'') demo_world)) (ustr ''output.txt'') = Some []"
  by (simp add: st_transcribe_audio_engine_failure translate_and_summarize_engine_failure
      demo_ffmpeg_status demo_whisper_status
      demo_files_after_whisper demo_files_after_ffmpeg demo_world_def demo_a_mp3)
   (simp add: ustr_def)

subsection \<open>C2: the transcription engine fails\<close>

text \<open>
  C2, as amended. \<^verbatim>\<open>transcribe_audio\<close> of \<^verbatim>\<open>streamlit_app.py\<close> never raises.
  When normalization succeeded and the command line of the engine leaves with
  a status other than 0 (the model file or the program is missing), it
  returns the placeholder text, which contains the model identifier and the
  base name of the input audio path. (\<^verbatim>\<open>translate_and_summarize\<close> of \<^verbatim>\<open>main.py\<close>
  has no such handler and raises, see the counterexample.)
\<close>

theorem streamlit_engine_failure_placeholder:
  "(\<exists>r. fst (st_transcribe_audio E p wm w) = Inr r)
   \<and> (ffmpeg_status E p (files w) = 0 \<longrightarrow> whisper_status E p wm (files w) \<noteq> 0 \<longrightarrow>
        st_transcribe_audio E p wm w =
          (Inr (Some (whisper_unavailable p wm)),
           w\<lparr>files := files_after_whisper E p wm (files w),
             cmd_log := cmd_log w @ [ffmpeg_line p, whisper_line p wm]\<rparr>))
   \<and> sublist wm (whisper_unavailable p wm)
   \<and> sublist (basename p) (whisper_unavailable p wm)"
  using st_transcribe_audio_never_raises [of E p wm w] whisper_unavailable_names [of wm p]
  by (simp add: st_transcribe_audio_engine_failure)

text \<open>The theorem at \<^verbatim>\<open>/tmp/a.mp3\<close>, with an engine that is not installed.\<close>

theorem streamlit_engine_failure_placeholder_witness:
  "ffmpeg_status (demo_env (demo_shell 0 127) (Raises [])) (ustr ''/tmp/a.mp3'')
      (files demo_world) = 0
   \<and> whisper_status (demo_env (demo_shell 0 127) (Raises [])) (ustr ''/tmp/a.mp3'')
        (ustr ''small'') (files demo_world) \<noteq> 0
   \<and> fst (st_transcribe_audio (demo_env (demo_shell 0 127) (Raises [])) (ustr ''/tmp/a.mp3'')
        (ustr ''small'') demo_world) =
      Inr (Some (whisper_unavailable (ustr ''/tmp/a.mp3'') (ustr ''small'')))
   \<and> sublist (ustr ''small'') (whisper_unavailable (ustr ''/tmp/a.mp3'') (ustr ''small''))
   \<and> sublist (ustr ''a.mp3'') (whisper_unavailable (ustr ''/tmp/a.mp3'') (ustr ''small''))"
  using streamlit_engine_failure_placeholder [of "demo_env (demo_shell 0 127) (Raises [])"
      "ustr ''/tmp/a.mp3''" "ustr ''small''" demo_world]
  by (simp add: demo_ffmpeg_status demo_whisper_status demo_basename)

text \<open>
  C2 as it was stated fails for \<^verbatim>\<open>main.py\<close>: normalization succeeds, the engine
  leaves with status 1, and \<^verbatim>\<open>translate_and_summarize\<close> raises
  \<^verbatim>\<open>CalledProcessError\<close>.
\<close>

theorem gradio_engine_failure_raises:
  "ffmpeg_status (demo_env (demo_shell 0 1) (Raises [])) (ustr ''a.mp3'') (files demo_world) = 0
   \<and> translate_and_summarize (demo_env (demo_shell 0 1) (Raises [])) (ustr ''a.mp3'') []
        (ustr ''small'') (ustr ''llama3'') demo_world =
      (Inl (CalledProcessError 1 (whisper_line (ustr ''a.mp3'') (ustr ''small''))),
       \<lparr>files = [ustr ''a.mp3'' \<mapsto> ustr ''ID3'', ustr ''a_converted.wav'' \<mapsto> ustr ''RIFF'',
                  ustr ''output.txt'' \<mapsto> []],
        cmd_log = [ffmpeg_line (ustr ''a.mp3''), whisper_line (ustr ''a.mp3'') (ustr ''small'')],
        post_log = []\<rparr>)"
  by (simp add: translate_and_summarize_engine_failure demo_ffmpeg_status demo_whisper_status
      demo_files_after_whisper demo_files_after_ffmpeg demo_world_def)

subsection \<open>C3: a line of the stream is not JSON\<close>

text \<open>
  C3, as amended. The server answers with status 200; the lines before the
  line \<open>bad\<close> are blank or hold frames that are not terminal; \<open>bad\<close> decodes and
  does not parse as JSON. Then \<^verbatim>\<open>summarize_with_model\<close>, in both versions, stops
  at \<open>bad\<close>, whatever lines follow it, and drops the fragments accumulated so
  far. When \<^verbatim>\<open>response.text\<close> can be read at that moment, that is, when the
  body was not read to its end before \<open>bad\<close> was yielded, the result is the
  text \<^verbatim>\<open>Failed to parse the response from the server. Raw response: \<close>
  followed by the value of \<^verbatim>\<open>response.text\<close>, which is the text of the bytes
  \<open>unread\<close> of the body that were not read yet.
\<close>

theorem json_parse_failure_explained:
  assumes "m \<noteq> ustr ''ollama-not-available''"
    and "http_post E (OLLAMA_SERVER_URL E @ ustr ''/api/generate'') m (prompt_of c t) = Responds r"
    and "status_code r = 200"
    and "iter_lines r = pre @ bad # rest"
    and "\<forall>l\<in>set pre. line_text E l \<noteq> None \<and> \<not> line_done E l"
    and "bad \<noteq> []" and "utf8_decode E bad = Some s" and "json_loads E s = None"
    and "unread_at r (length pre) = Some unread"
  shows "summarize_with_model E m c t w =
      (Inr (ustr ''Failed to parse the response from the server. Raw response: '' @
            content_text r unread),
       w\<lparr>post_log := post_log w @
          [(OLLAMA_SERVER_URL E @ ustr ''/api/generate'', m, prompt_of c t)]\<rparr>)
    \<and> st_summarize_with_model E m c t w = summarize_with_model E m c t w"
proof -
  have "iter_lines_loop E [] (pre @ bad # rest) =
      iter_lines_loop E ([] @ accumulated E pre) (bad # rest)"
    using assms(5) by (rule loop_prefix)
  also have "\<dots> = Inl JSONDecodeError"
    using assms(6-8) by (rule loop_bad_line)
  finally have loop: "iter_lines_loop E [] (iter_lines r) = Inl JSONDecodeError"
    using assms(4) by simp
  from assms(5) have "\<forall>l\<in>set pre. line_text E l \<noteq> None" by simp
  then have "length (takeWhile (\<lambda>l. \<not> not_json E l) (pre @ bad # rest)) = length pre"
    using assms(6-8) by (rule failing_line_index)
  then have "text_in_handler E r = Inr (content_text r unread)"
    using assms(4,9) by (simp add: text_in_handler_def read_text_def)
  with assms(1-3) loop show ?thesis
    by (simp add: summarize_with_model_def st_summarize_with_model_def summarize_body_request)
qed

text \<open>
  The theorem on \<open>broken_stream\<close>: the lines \<^verbatim>\<open>A\<close>, \<^verbatim>\<open>C\<close> and \<^verbatim>\<open>not json\<close> come
  in the first piece of the body, and the line \<^verbatim>\<open>B\<close> of the second piece is
  what was not read yet.
\<close>

theorem json_parse_failure_explained_witness:
  "iter_lines broken_stream = [line_A, line_C, ''not json'', line_B]
   \<and> unread_at broken_stream 2 = Some (line_B @ [LF])
   \<and> summarize_with_model (demo_env (demo_shell 0 0) (Responds broken_stream))
      (ustr ''llama3'') [] (ustr ''hello world'') demo_world =
    (Inr (ustr ''Failed to parse the response from the server. Raw response: '' @
          map of_char (line_B @ [LF])),
     demo_world\<lparr>post_log := [(ustr ''http://localhost:11434/api/generate'', ustr ''llama3'',
         prompt_of [] (ustr ''hello world''))]\<rparr>)
   \<and> st_summarize_with_model (demo_env (demo_shell 0 0) (Responds broken_stream))
      (ustr ''llama3'') [] (ustr ''hello world'') demo_world =
     summarize_with_model (demo_env (demo_shell 0 0) (Responds broken_stream))
      (ustr ''llama3'') [] (ustr ''hello world'') demo_world"
proof -
  let ?E = "demo_env (demo_shell 0 0) (Responds broken_stream)"
  have p: "http_post ?E (OLLAMA_SERVER_URL ?E @ ustr ''/api/generate'') (ustr ''llama3'')
      (prompt_of [] (ustr ''hello world'')) = Responds broken_stream"
    by (simp add: demo_url)
  have l: "iter_lines broken_stream = [line_A, line_C] @ ''not json'' # [line_B]"
    by (simp add: broken_stream_lines)
  have pre: "\<forall>l\<in>set [line_A, line_C]. line_text ?E l \<noteq> None \<and> \<not> line_done ?E l"
    using line_A_text [OF demo_frame_A] line_C_text [OF demo_frame_C] by simp
  have b: "''not json'' \<noteq> ([] :: bytes)" by simp
  have d: "utf8_decode ?E ''not json'' = Some (ustr ''not json'')"
    by (simp add: demo_env_def demo_decode_def ustr_def)
  have j: "json_loads ?E (ustr ''not json'') = None"
    by (simp add: demo_env_def demo_loads_def line_A_def line_B_def line_C_def ustr_def)
  have u: "unread_at broken_stream (length [line_A, line_C]) = Some (line_B @ [LF])"
    using broken_stream_lines(3) by (simp add: numeral_2_eq_2)
  have ct: "content_text broken_stream (line_B @ [LF]) = map of_char (line_B @ [LF])"
    by (simp add: content_text_def broken_stream_def demo_response_simps)
  from json_parse_failure_explained [OF demo_url(3) p broken_stream_lines(1) l pre b d j u,
      of demo_world]
  show ?thesis
    unfolding ct by (simp add: broken_stream_lines demo_url demo_world_def)
qed

text \<open>
  C3 as it was stated fails twice. On \<open>broken_tail\<close>, a body that ends in the
  line \<^verbatim>\<open>not json\<close> without a line end, that line is yielded when the stream
  was read to its end, \<^verbatim>\<open>response.text\<close> raises \<^verbatim>\<open>RuntimeError\<close> in the handler,
  and \<^verbatim>\<open>summarize_with_model\<close> raises. On \<open>broken_stream\<close> the frames before
  the bad line have accumulated \<^verbatim>\<open>AC\<close>, and the result, the explanatory text
  and the line \<^verbatim>\<open>B\<close>, does not contain \<^verbatim>\<open>AC\<close>.
\<close>

theorem parse_failure_raises_or_drops_fragments:
  "raw_stream broken_tail = [line_A @ [LF] @ ''not json'']
   \<and> fst (summarize_with_model (demo_env (demo_shell 0 0) (Responds broken_tail))
      (ustr ''llama3'') [] (ustr ''hello world'') demo_world) = Inl RuntimeError
   \<and> fst (summarize_with_model (demo_env (demo_shell 0 0) (Responds broken_stream))
      (ustr ''llama3'') [] (ustr ''hello world'') demo_world) =
     Inr (ustr ''Failed to parse the response from the server. Raw response: '' @
          map of_char (line_B @ [LF]))
   \<and> accumulated (demo_env (demo_shell 0 0) (Responds broken_stream)) [line_A, line_C] =
     ustr ''AC''
   \<and> \<not> sublist (ustr ''AC'')
        (ustr ''Failed to parse the response from the server. Raw response: '' @
          map of_char (line_B @ [LF]))"
proof -
  let ?E = "demo_env (demo_shell 0 0) (Responds broken_stream)"
  let ?E' = "demo_env (demo_shell 0 0) (Responds broken_tail)"
  have a: "line_text ?E line_A = Some (ustr ''A'')" "\<not> line_done ?E line_A"
    using line_A_text [OF demo_frame_A] by simp_all
  have c: "line_text ?E line_C = Some (ustr ''C'')" "\<not> line_done ?E line_C"
    using line_C_text [OF demo_frame_C] by simp_all
  have 0: "raw_stream broken_tail = [line_A @ [LF] @ ''not json'']"
    by (simp add: broken_tail_def demo_response_simps)
  have 1: "fst (summarize_with_model ?E' (ustr ''llama3'') [] (ustr ''hello world'') demo_world) =
      Inl RuntimeError"
    by (simp add: summarize_with_model_def
        summarize_body_request [OF demo_url(3), where r = broken_tail]
        demo_url broken_tail_lines(1) broken_tail_loop)
  have 2: "fst (summarize_with_model ?E (ustr ''llama3'') [] (ustr ''hello world'') demo_world) =
      Inr (ustr ''Failed to parse the response from the server. Raw response: '' @
          map of_char (line_B @ [LF]))"
    by (simp add: summarize_with_model_def
        summarize_body_request [OF demo_url(3), where r = broken_stream]
        demo_url broken_stream_lines(1) broken_stream_loop del: map_append)
  have 3: "accumulated ?E [line_A, line_C] = ustr ''AC''"
    using a c by (simp add: ustr_def)
  have 4: "\<not> sublist (ustr ''AC'')
        (ustr ''Failed to parse the response from the server. Raw response: '' @
          map of_char (line_B @ [LF]))"
    by code_simp
  from 0 1 2 3 4 show ?thesis by blast
qed

subsection \<open>C4: the summarizer without an inference server\<close>

text \<open>
  C4. With the model identifier \<^verbatim>\<open>ollama-not-available\<close>, both versions of
  \<^verbatim>\<open>summarize_with_model\<close> send no request (the world, with its log of
  requests, is returned as it was, and the result does not depend on the
  server) and return the fixed opening text, the context (or \<^verbatim>\<open>None\<close> for an
  empty context), and the first 500 characters of the transcript, followed by
  \<^verbatim>\<open>...\<close> when the transcript is longer than 500 characters and by nothing
  when it is not. The context is a substring of the result, and the result
  ends with the transcript prefix and its ellipsis.
\<close>

theorem ollama_not_available_short_circuit:
  "summarize_with_model E (ustr ''ollama-not-available'') ctx transcript w =
     (Inr (unavailable_head @ (if ctx \<noteq> [] then ctx else ustr ''None'') @ nl @ nl @
           ustr ''**Transcript preview** (first 500 characters):'' @ nl @
           take 500 transcript @ (if 500 < length transcript then ustr ''...'' else [])), w)
   \<and> st_summarize_with_model E (ustr ''ollama-not-available'') ctx transcript w =
     (Inr (st_unavailable_head @ (if ctx \<noteq> [] then ctx else ustr ''None'') @ nl @ nl @
           ustr ''**Transcript preview** (first 500 characters):'' @ nl @
           take 500 transcript @ (if 500 < length transcript then ustr ''...'' else [])), w)
   \<and> (\<exists>r r'. fst (summarize_with_model E (ustr ''ollama-not-available'') ctx transcript w) = Inr r
        \<and> fst (st_summarize_with_model E (ustr ''ollama-not-available'') ctx transcript w) = Inr r'
        \<and> sublist ctx r \<and> sublist ctx r'
        \<and> suffix (take 500 transcript @ (if 500 < length transcript then ustr ''...'' else [])) r
        \<and> suffix (take 500 transcript @ (if 500 < length transcript then ustr ''...'' else [])) r'
        \<and> length (take 500 transcript) \<le> 500 \<and> prefix (take 500 transcript) transcript)"
proof -
  let ?tail = "take 500 transcript @ (if 500 < length transcript then ustr ''...'' else [])"
  let ?ctx = "if ctx \<noteq> [] then ctx else ustr ''None''"
  let ?mid = "nl @ nl @ ustr ''**Transcript preview** (first 500 characters):'' @ nl"
  have m: "summarize_with_model E (ustr ''ollama-not-available'') ctx transcript w =
      (Inr (unavailable_head @ ?ctx @ ?mid @ ?tail), w)"
    by (simp add: summarize_with_model_def summarize_body_def)
  have s: "st_summarize_with_model E (ustr ''ollama-not-available'') ctx transcript w =
      (Inr (st_unavailable_head @ ?ctx @ ?mid @ ?tail), w)"
    by (simp add: st_summarize_with_model_def summarize_body_def)
  have c: "sublist ctx (h @ ?ctx @ ?mid @ ?tail)" for h
  proof (cases "ctx = []")
    case True
    then show ?thesis by simp
  next
    case False
    then show ?thesis using sublist_appendI [of ctx h "?mid @ ?tail"] by simp
  qed
  have t: "suffix ?tail (h @ ?ctx @ ?mid @ ?tail)" for h
    unfolding suffix_def by (rule exI [of _ "h @ ?ctx @ ?mid"]) simp
  show ?thesis
    using m s c [of unavailable_head] c [of st_unavailable_head]
      t [of unavailable_head] t [of st_unavailable_head]
    by (simp add: take_is_prefix)
qed

subsection \<open>C5: the frames A, B, C\<close>

text \<open>
  C5. When the decoder and the parser read the lines
  \<^verbatim>\<open>{"response":"A","done":false}\<close> and \<^verbatim>\<open>{"response":"B","done":true}\<close> as the
  objects they write, the loop of \<^verbatim>\<open>summarize_with_model\<close> on these two lines
  and \<^verbatim>\<open>{"response":"C","done":false}\<close> returns exactly \<^verbatim>\<open>AB\<close>; so it does
  whatever lines follow the second one, and so does \<^verbatim>\<open>summarize_with_model\<close> on
  a response with status 200 that has these three lines.
\<close>

theorem frames_A_B_C_accumulate_AB:
  assumes "frame_of E line_A = Some frame_A" and "frame_of E line_B = Some frame_B"
  shows "iter_lines_loop E [] [line_A, line_B, line_C] = Inr (ustr ''AB'')
    \<and> (\<forall>rest. iter_lines_loop E [] (line_A # line_B # rest) = Inr (ustr ''AB''))
    \<and> (\<forall>m c t w r. m \<noteq> ustr ''ollama-not-available'' \<longrightarrow>
         http_post E (OLLAMA_SERVER_URL E @ ustr ''/api/generate'') m (prompt_of c t) =
           Responds r \<longrightarrow>
         status_code r = 200 \<longrightarrow> iter_lines r = [line_A, line_B, line_C] \<longrightarrow>
         fst (summarize_with_model E m c t w) = Inr (ustr ''AB''))"
proof -
  have step: "iter_lines_loop E [] (line_A # line_B # rest) = Inr (ustr ''AB'')" for rest
    using line_A_text [OF assms(1)] line_B_text [OF assms(2)]
    by (simp add: loop_step ustr_def del: iter_lines_loop.simps)
  then show ?thesis
    by (simp add: summarize_with_model_def summarize_body_request del: iter_lines_loop.simps)
qed

text \<open>
  The theorem in the concrete environment, whose server sends the three lines
  in two pieces.
\<close>

theorem frames_A_B_C_accumulate_AB_witness:
  "frame_of (demo_env (demo_shell 0 0) (Responds abc_stream)) line_A = Some frame_A
   \<and> frame_of (demo_env (demo_shell 0 0) (Responds abc_stream)) line_B = Some frame_B
   \<and> iter_lines_loop (demo_env (demo_shell 0 0) (Responds abc_stream)) [] [line_A, line_B, line_C] =
     Inr (ustr ''AB'')
   \<and> fst (summarize_with_model (demo_env (demo_shell 0 0) (Responds abc_stream))
        (ustr ''llama3'') [] (ustr ''hello world'') demo_world) = Inr (ustr ''AB'')"
proof -
  let ?r = abc_stream
  let ?E = "demo_env (demo_shell 0 0) (Responds ?r)"
  have m: "ustr ''llama3'' \<noteq> ustr ''ollama-not-available''" by (simp add: ustr_def)
  have p: "http_post ?E (OLLAMA_SERVER_URL ?E @ ustr ''/api/generate'') (ustr ''llama3'')
      (prompt_of [] (ustr ''hello world'')) = Responds ?r"
    by (simp add: demo_env_def)
  from frames_A_B_C_accumulate_AB [OF demo_frame_A demo_frame_B, of "demo_shell 0 0" "Responds ?r"]
    m p abc_stream_lines
  show ?thesis
    by (simp add: demo_frame_A demo_frame_B del: iter_lines_loop.simps)
qed

subsection \<open>C6: an empty summary\<close>

text \<open>
  C6, as amended. The summary is empty only when the server answered with
  status 200 and the loop over its lines accumulated no text: with the
  identifier \<^verbatim>\<open>ollama-not-available\<close>, after a failed connection, after another
  status and after a line that is not JSON the summary is an explanatory text
  and is not empty. This holds for both versions of \<^verbatim>\<open>summarize_with_model\<close>
  and for the summary \<^verbatim>\<open>translate_and_summarize\<close> returns.
\<close>

theorem empty_summary_only_from_silent_stream:
  "((summarize_with_model E m c t w = (Inr [], w') \<or>
     st_summarize_with_model E m c t w = (Inr [], w')) \<longrightarrow>
      m \<noteq> ustr ''ollama-not-available'' \<and>
      (\<exists>r. http_post E (OLLAMA_SERVER_URL E @ ustr ''/api/generate'') m (prompt_of c t) =
              Responds r \<and>
           status_code r = 200 \<and> iter_lines_loop E [] (iter_lines r) = Inr []))
   \<and> (translate_and_summarize E p c wm m w = (Inr ([], tf), w'') \<longrightarrow>
      m \<noteq> ustr ''ollama-not-available'' \<and>
      (\<exists>t r. http_post E (OLLAMA_SERVER_URL E @ ustr ''/api/generate'') m (prompt_of c t) =
              Responds r \<and>
           status_code r = 200 \<and> iter_lines_loop E [] (iter_lines r) = Inr []))"
proof -
  have h: "unavailable_head \<noteq> []" "st_unavailable_head \<noteq> []"
    by (simp_all add: unavailable_head_def st_unavailable_head_def)
  have 1: "(summarize_with_model E m c t w = (Inr [], w') \<or>
     st_summarize_with_model E m c t w = (Inr [], w')) \<longrightarrow>
      m \<noteq> ustr ''ollama-not-available'' \<and>
      (\<exists>r. http_post E (OLLAMA_SERVER_URL E @ ustr ''/api/generate'') m (prompt_of c t) =
              Responds r \<and>
           status_code r = 200 \<and> iter_lines_loop E [] (iter_lines r) = Inr [])"
    unfolding summarize_with_model_def st_summarize_with_model_def
    using h summarize_body_empty by blast
  have 2: "translate_and_summarize E p c wm m w = (Inr ([], tf), w'') \<longrightarrow>
      m \<noteq> ustr ''ollama-not-available'' \<and>
      (\<exists>t r. http_post E (OLLAMA_SERVER_URL E @ ustr ''/api/generate'') m (prompt_of c t) =
              Responds r \<and>
           status_code r = 200 \<and> iter_lines_loop E [] (iter_lines r) = Inr [])"
  proof
    assume "translate_and_summarize E p c wm m w = (Inr ([], tf), w'')"
    then obtain t' w3 w4 where "summarize_with_model E m c t' w3 = (Inr [], w4)"
      using translate_and_summarize_summary by blast
    then have "summarize_body unavailable_head E m c t' w3 = (Inr [], w4)"
      by (simp add: summarize_with_model_def)
    from summarize_body_empty [OF this h(1)]
    show "m \<noteq> ustr ''ollama-not-available'' \<and>
      (\<exists>t r. http_post E (OLLAMA_SERVER_URL E @ ustr ''/api/generate'') m (prompt_of c t) =
              Responds r \<and>
           status_code r = 200 \<and> iter_lines_loop E [] (iter_lines r) = Inr [])"
      by blast
  qed
  from 1 2 show ?thesis by blast
qed

text \<open>The theorem on a server that answers with status 200 and no line.\<close>

theorem empty_summary_only_from_silent_stream_witness:
  "fst (summarize_with_model
     (demo_env (demo_shell 0 0) (Responds (demo_response 200 [])))
     (ustr ''llama3'') [] (ustr ''hello world'') demo_world) = Inr []
   \<and> fst (translate_and_summarize
     (demo_env (demo_shell 0 0) (Responds (demo_response 200 [])))
     (ustr ''a.mp3'') [] (ustr ''small'') (ustr ''llama3'') demo_world) =
     Inr ([], ustr ''transcript.txt'')
   \<and> ustr ''llama3'' \<noteq> ustr ''ollama-not-available''
   \<and> (\<exists>t r. http_post
          (demo_env (demo_shell 0 0)
             (Responds (demo_response 200 [])))
          (ustr ''http://localhost:11434/api/generate'') (ustr ''llama3'') (prompt_of [] t) =
            Responds r \<and>
         status_code r = 200 \<and>
         iter_lines_loop
           (demo_env (demo_shell 0 0)
              (Responds (demo_response 200 [])))
           [] (iter_lines r) = Inr [])"
proof -
  let ?E = "demo_env (demo_shell 0 0)
    (Responds (demo_response 200 []))"
  let ?T = "translate_and_summarize ?E (ustr ''a.mp3'') [] (ustr ''small'') (ustr ''llama3'')
    demo_world"
  have e: "fst (summarize_with_model ?E (ustr ''llama3'') [] (ustr ''hello world'') demo_world) =
      Inr []"
    by (simp add: summarize_with_model_def demo_silent)
  have T: "?T = (Inr ([], ustr ''transcript.txt''), snd ?T)"
    using demo_silent_pipeline by (cases ?T) simp
  have u: "OLLAMA_SERVER_URL ?E @ ustr ''/api/generate'' =
      ustr ''http://localhost:11434/api/generate''"
    by (simp add: demo_env_def ustr_def)
  from empty_summary_only_from_silent_stream [where E = ?E and m = "ustr ''llama3''"
      and c = "[]" and p = "ustr ''a.mp3''" and wm = "ustr ''small''" and w = demo_world
      and tf = "ustr ''transcript.txt''" and w'' = "snd ?T"] T
  have "ustr ''llama3'' \<noteq> ustr ''ollama-not-available'' \<and>
      (\<exists>t r. http_post ?E (OLLAMA_SERVER_URL ?E @ ustr ''/api/generate'') (ustr ''llama3'')
            (prompt_of [] t) = Responds r \<and>
         status_code r = 200 \<and> iter_lines_loop ?E [] (iter_lines r) = Inr [])"
    by blast
  with e demo_silent_pipeline show ?thesis unfolding u by simp
qed

text \<open>
  C6 as it was stated fails: the server answers with status 200 and sends no
  line, and the summary, of \<^verbatim>\<open>summarize_with_model\<close> and of the pipeline, is
  the empty string.
\<close>

theorem silent_stream_gives_empty_summary:
  "summarize_with_model
     (demo_env (demo_shell 0 0) (Responds (demo_response 200 [])))
     (ustr ''llama3'') [] (ustr ''hello world'') demo_world =
   (Inr [], demo_world\<lparr>post_log := [(ustr ''http://localhost:11434/api/generate'',
      ustr ''llama3'', prompt_of [] (ustr ''hello world''))]\<rparr>)
   \<and> fst (translate_and_summarize
     (demo_env (demo_shell 0 0) (Responds (demo_response 200 [])))
     (ustr ''a.mp3'') [] (ustr ''small'') (ustr ''llama3'') demo_world) =
     Inr ([], ustr ''transcript.txt'')"
proof (intro conjI)
  show "summarize_with_model
     (demo_env (demo_shell 0 0) (Responds (demo_response 200 [])))
     (ustr ''llama3'') [] (ustr ''hello world'') demo_world =
   (Inr [], demo_world\<lparr>post_log := [(ustr ''http://localhost:11434/api/generate'',
      ustr ''llama3'', prompt_of [] (ustr ''hello world''))]\<rparr>)"
    by (simp add: summarize_with_model_def demo_silent demo_world_def)
  show "fst (translate_and_summarize
     (demo_env (demo_shell 0 0) (Responds (demo_response 200 [])))
     (ustr ''a.mp3'') [] (ustr ''small'') (ustr ''llama3'') demo_world) =
     Inr ([], ustr ''transcript.txt'')"
    by (rule demo_silent_pipeline)
qed

subsection \<open>C7: the transcript file\<close>

text \<open>
  C7, as amended. When \<^verbatim>\<open>translate_and_summarize\<close> of \<^verbatim>\<open>main.py\<close> returns, the
  path it returns is \<^verbatim>\<open>transcript.txt\<close> and that file exists. More precisely,
  when normalization and the engine succeeded and the capture file holds
  \<open>t\<close>, then \<^verbatim>\<open>transcript.txt\<close> holds \<open>t\<close> after the invocation, whether the
  summary is a real one or an explanatory text, and also when summarization or
  the clean-up raises. When the engine leaves with another status than 0, the
  invocation raises \<^verbatim>\<open>CalledProcessError\<close> and has written no file itself: the
  files are those the two tools left. In \<^verbatim>\<open>streamlit_app.py\<close>, \<^verbatim>\<open>main\<close> writes
  \<^verbatim>\<open>transcript.txt\<close> and removes it in its clean-up: when the uploaded file was
  there, is not \<^verbatim>\<open>output.txt\<close> and is left in place by the tools, the transcript
  file is absent after \<^verbatim>\<open>main\<close> has shown a result. (Nothing reads the file in
  between: the download button of line 293 is given the transcript from
  memory, though the comment of line 275 says \<^verbatim>\<open>Save transcript for download\<close>.)
\<close>

theorem transcript_file_after_invocation:
  "(translate_and_summarize E p c wm m w = (Inr (s, tf), w') \<longrightarrow>
      tf = ustr ''transcript.txt'' \<and> (\<exists>t. files w' tf = Some t))
   \<and> (ffmpeg_status E p (files w) = 0 \<longrightarrow> whisper_status E p wm (files w) = 0 \<longrightarrow>
       files_after_whisper E p wm (files w) (ustr ''output.txt'') = Some t \<longrightarrow>
       files (snd (translate_and_summarize E p c wm m w)) (ustr ''transcript.txt'') = Some t)
   \<and> (ffmpeg_status E p (files w) = 0 \<longrightarrow> whisper_status E p wm (files w) \<noteq> 0 \<longrightarrow>
       translate_and_summarize E p c wm m w =
         (Inl (CalledProcessError (whisper_status E p wm (files w)) (whisper_line p wm)),
          w\<lparr>files := files_after_whisper E p wm (files w),
            cmd_log := cmd_log w @ [ffmpeg_line p, whisper_line p wm]\<rparr>))
   \<and> (files w p \<noteq> None \<longrightarrow>
       (\<forall>cmd fs. fs p \<noteq> None \<longrightarrow> snd (shell E cmd fs) p \<noteq> None) \<longrightarrow>
       p \<noteq> ustr ''output.txt'' \<longrightarrow> st_main_process E p c wm m w = (Inr (Some r), w'') \<longrightarrow>
       files w'' (ustr ''transcript.txt'') = None)"
proof -
  have 1: "translate_and_summarize E p c wm m w = (Inr (s, tf), w') \<longrightarrow>
      tf = ustr ''transcript.txt'' \<and> (\<exists>t. files w' tf = Some t)"
    using translate_and_summarize_returns_file by blast
  have 2: "ffmpeg_status E p (files w) = 0 \<longrightarrow> whisper_status E p wm (files w) = 0 \<longrightarrow>
       files_after_whisper E p wm (files w) (ustr ''output.txt'') = Some t \<longrightarrow>
       files (snd (translate_and_summarize E p c wm m w)) (ustr ''transcript.txt'') = Some t"
    using translate_and_summarize_transcript_file by blast
  have 3: "ffmpeg_status E p (files w) = 0 \<longrightarrow> whisper_status E p wm (files w) \<noteq> 0 \<longrightarrow>
       translate_and_summarize E p c wm m w =
         (Inl (CalledProcessError (whisper_status E p wm (files w)) (whisper_line p wm)),
          w\<lparr>files := files_after_whisper E p wm (files w),
            cmd_log := cmd_log w @ [ffmpeg_line p, whisper_line p wm]\<rparr>)"
    using translate_and_summarize_engine_failure by blast
  have 4: "files w p \<noteq> None \<longrightarrow>
       (\<forall>cmd fs. fs p \<noteq> None \<longrightarrow> snd (shell E cmd fs) p \<noteq> None) \<longrightarrow>
       p \<noteq> ustr ''output.txt'' \<longrightarrow> st_main_process E p c wm m w = (Inr (Some r), w'') \<longrightarrow>
       files w'' (ustr ''transcript.txt'') = None"
    using st_main_process_removes_transcript_file [of w p E c wm m r w''] by blast
  from 1 2 3 4 show ?thesis by blast
qed

text \<open>
  The theorem on \<^verbatim>\<open>a.mp3\<close> with a server that cannot be reached: with an
  engine that succeeds, for both front-ends, and with one that fails.
\<close>

theorem transcript_file_after_invocation_witness:
  "fst (translate_and_summarize (demo_env (demo_shell 0 0) (Raises (ustr ''Connection refused'')))
        (ustr ''a.mp3'') [] (ustr ''small'') (ustr ''llama3'') demo_world) =
     Inr ([10060] @ ustr '' Error: Cannot connect to Ollama server: Connection refused'' @ nl @
          nl @ ustr ''Transcript is still available for download below.'',
          ustr ''transcript.txt'')
   \<and> files (snd (translate_and_summarize
        (demo_env (demo_shell 0 0) (Raises (ustr ''Connection refused'')))
        (ustr ''a.mp3'') [] (ustr ''small'') (ustr ''llama3'') demo_world))
        (ustr ''transcript.txt'') = Some (ustr ''hello world'')
   \<and> fst (translate_and_summarize (demo_env (demo_shell 0 1) (Raises (ustr ''Connection refused'')))
        (ustr ''a.mp3'') [] (ustr ''small'') (ustr ''llama3'') demo_world) =
     Inl (CalledProcessError 1 (whisper_line (ustr ''a.mp3'') (ustr ''small'')))
   \<and> files demo_world (ustr ''a.mp3'') \<noteq> None
   \<and> fst (st_main_process (demo_env (demo_shell 0 0) (Raises (ustr ''Connection refused'')))
        (ustr ''a.mp3'') [] (ustr ''small'') (ustr ''llama3'') demo_world) =
     Inr (Some ([10060] @ ustr '' Error: Cannot connect to Ollama server: Connection refused'' @
                nl @ nl @ ustr ''Transcript is still available for download below.'',
                ustr ''hello world''))
   \<and> files (snd (st_main_process (demo_env (demo_shell 0 0) (Raises (ustr ''Connection refused'')))
        (ustr ''a.mp3'') [] (ustr ''small'') (ustr ''llama3'') demo_world))
        (ustr ''transcript.txt'') = None"
proof -
  let ?E = "demo_env (demo_shell 0 0) (Raises (ustr ''Connection refused''))"
  let ?E' = "demo_env (demo_shell 0 1) (Raises (ustr ''Connection refused''))"
  let ?msg = "[10060] @ ustr '' Error: Cannot connect to Ollama server: Connection refused'' @
    nl @ nl @ ustr ''Transcript is still available for download below.''"
  let ?T = "translate_and_summarize ?E (ustr ''a.mp3'') [] (ustr ''small'') (ustr ''llama3'')
    demo_world"
  let ?M = "st_main_process ?E (ustr ''a.mp3'') [] (ustr ''small'') (ustr ''llama3'') demo_world"
  have f: "ffmpeg_status ?E (ustr ''a.mp3'') (files demo_world) = 0"
    "ffmpeg_status ?E' (ustr ''a.mp3'') (files demo_world) = 0"
    by (simp_all add: demo_ffmpeg_status)
  have wh: "whisper_status ?E (ustr ''a.mp3'') (ustr ''small'') (files demo_world) = 0"
    "whisper_status ?E' (ustr ''a.mp3'') (ustr ''small'') (files demo_world) \<noteq> 0"
    by (simp_all add: demo_whisper_status)
  have T: "fst ?T = Inr (?msg, ustr ''transcript.txt'')"
    by (subst translate_and_summarize_success [OF f(1) wh(1) demo_capture demo_wav])
      (simp_all add: summarize_with_model_def demo_cannot_connect)
  have k: "files demo_world (ustr ''a.mp3'') \<noteq> None" by (simp add: demo_world_def)
  have sh: "\<forall>cmd fs. fs (ustr ''a.mp3'') \<noteq> None \<longrightarrow>
      snd (shell ?E cmd fs) (ustr ''a.mp3'') \<noteq> None"
    by (simp add: demo_env_def demo_shell_keeps)
  have n: "ustr ''a.mp3'' \<noteq> ustr ''output.txt''" by (simp add: ustr_def)
  have M: "?M = (Inr (Some (?msg, ustr ''hello world'')), snd ?M)"
    by (simp add: demo_st_main_process)
  have 2: "files (snd ?T) (ustr ''transcript.txt'') = Some (ustr ''hello world'')"
    using transcript_file_after_invocation [of ?E "ustr ''a.mp3''" "[]" "ustr ''small''"
        "ustr ''llama3''" demo_world _ _ _ "ustr ''hello world''"] f(1) wh(1) demo_capture
    by blast
  have 3: "fst (translate_and_summarize ?E' (ustr ''a.mp3'') [] (ustr ''small'') (ustr ''llama3'')
      demo_world) = Inl (CalledProcessError 1 (whisper_line (ustr ''a.mp3'') (ustr ''small'')))"
    using transcript_file_after_invocation [of ?E' "ustr ''a.mp3''" "[]" "ustr ''small''"
        "ustr ''llama3''" demo_world] f(2) wh(2)
    by (simp add: demo_whisper_status)
  have 4: "files (snd ?M) (ustr ''transcript.txt'') = None"
    using transcript_file_after_invocation [of ?E "ustr ''a.mp3''" "[]" "ustr ''small''"
        "ustr ''llama3''" demo_world _ _ _ _ "(?msg, ustr ''hello world'')" "snd ?M"] k sh n M
    by blast
  from T 2 3 k M 4 show ?thesis by (simp add: demo_st_main_process)
qed

text \<open>
  C7 as it was stated fails for \<^verbatim>\<open>main.py\<close>: normalization succeeds, the engine
  leaves with status 1, the invocation raises, and there is no
  \<^verbatim>\<open>transcript.txt\<close>.
\<close>

theorem gradio_engine_failure_leaves_no_transcript_file:
  "ffmpeg_status (demo_env (demo_shell 0 1) (Raises [])) (ustr ''a.mp3'') (files demo_world) = 0
   \<and> fst (translate_and_summarize (demo_env (demo_shell 0 1) (Raises [])) (ustr ''a.mp3'') []
        (ustr ''small'') (ustr ''llama3'') demo_world) =
      Inl (CalledProcessError 1 (whisper_line (ustr ''a.mp3'') (ustr ''small'')))
   \<and> files (snd (translate_and_summarize (demo_env (demo_shell 0 1) (Raises [])) (ustr ''a.mp3'')
        [] (ustr ''small'') (ustr ''llama3'') demo_world)) (ustr ''transcript.txt'') = None"
  by (simp add: translate_and_summarize_engine_failure demo_ffmpeg_status demo_whisper_status
      demo_files_after_whisper demo_files_after_ffmpeg demo_world_def)
   (simp add: ustr_def)

subsection \<open>C8: audio normalization\<close>

text \<open>
  C8, as amended. When the \<^verbatim>\<open>ffmpeg\<close> command line leaves with a status other
  than 0 (127 of the shell when the program is missing):
  \<^verbatim>\<open>preprocess_audio_file\<close> of \<^verbatim>\<open>main.py\<close> raises \<^verbatim>\<open>CalledProcessError\<close>, and
  \<^verbatim>\<open>translate_and_summarize\<close> raises it in turn; \<^verbatim>\<open>preprocess_audio_file\<close> of
  \<^verbatim>\<open>streamlit_app.py\<close> catches it and returns \<^verbatim>\<open>None\<close>, and \<^verbatim>\<open>transcribe_audio\<close>
  returns \<^verbatim>\<open>None\<close>. In all four cases the \<^verbatim>\<open>ffmpeg\<close> command line is the only one
  that was run: transcription is not attempted. When it leaves with status 0,
  both versions return the derived path, which is the input path without its
  extension followed by \<^verbatim>\<open>_converted.wav\<close> and is never the input path; the
  function does nothing to the files but run the command. The command is run
  for every input path, whatever the format of the file (the comment of line
  171 of \<^verbatim>\<open>main.py\<close> says \<^verbatim>\<open>if necessary\<close>; the code has no such test).
\<close>

theorem normalization_failure_and_success:
  "(ffmpeg_status E p (files w) \<noteq> 0 \<longrightarrow>
      preprocess_audio_file E p w =
        (Inl (CalledProcessError (ffmpeg_status E p (files w)) (ffmpeg_line p)),
         w\<lparr>files := files_after_ffmpeg E p (files w), cmd_log := cmd_log w @ [ffmpeg_line p]\<rparr>)
    \<and> translate_and_summarize E p c wm m w =
        (Inl (CalledProcessError (ffmpeg_status E p (files w)) (ffmpeg_line p)),
         w\<lparr>files := files_after_ffmpeg E p (files w), cmd_log := cmd_log w @ [ffmpeg_line p]\<rparr>)
    \<and> st_preprocess_audio_file E p w =
        (Inr None,
         w\<lparr>files := files_after_ffmpeg E p (files w), cmd_log := cmd_log w @ [ffmpeg_line p]\<rparr>)
    \<and> st_transcribe_audio E p wm w =
        (Inr None,
         w\<lparr>files := files_after_ffmpeg E p (files w), cmd_log := cmd_log w @ [ffmpeg_line p]\<rparr>))
   \<and> (ffmpeg_status E p (files w) = 0 \<longrightarrow>
      preprocess_audio_file E p w =
        (Inr (output_wav_file_of p),
         w\<lparr>files := files_after_ffmpeg E p (files w), cmd_log := cmd_log w @ [ffmpeg_line p]\<rparr>)
    \<and> st_preprocess_audio_file E p w =
        (Inr (Some (output_wav_file_of p)),
         w\<lparr>files := files_after_ffmpeg E p (files w), cmd_log := cmd_log w @ [ffmpeg_line p]\<rparr>))
   \<and> output_wav_file_of p = fst (splitext p) @ ustr ''_converted.wav''
   \<and> fst (splitext p) @ snd (splitext p) = p
   \<and> output_wav_file_of p \<noteq> p"
  using output_wav_file_neq_input [of p]
  by (simp add: preprocess_audio_file_eq st_preprocess_audio_file_eq
      translate_and_summarize_ffmpeg_failure st_transcribe_audio_def splitext_append
      output_wav_file_of_def)

text \<open>The theorem on \<^verbatim>\<open>a.mp3\<close>, with an \<^verbatim>\<open>ffmpeg\<close> that fails and one that succeeds.\<close>

theorem normalization_failure_and_success_witness:
  "ffmpeg_status (demo_env (demo_shell 1 0) (Raises [])) (ustr ''a.mp3'') (files demo_world) \<noteq> 0
   \<and> translate_and_summarize (demo_env (demo_shell 1 0) (Raises [])) (ustr ''a.mp3'') []
        (ustr ''small'') (ustr ''llama3'') demo_world =
      (Inl (CalledProcessError 1 (ffmpeg_line (ustr ''a.mp3''))),
       demo_world\<lparr>cmd_log := [ffmpeg_line (ustr ''a.mp3'')]\<rparr>)
   \<and> ffmpeg_status (demo_env (demo_shell 0 0) (Raises [])) (ustr ''a.mp3'') (files demo_world) = 0
   \<and> preprocess_audio_file (demo_env (demo_shell 0 0) (Raises [])) (ustr ''a.mp3'') demo_world =
      (Inr (ustr ''a_converted.wav''),
       \<lparr>files = [ustr ''a.mp3'' \<mapsto> ustr ''ID3'', ustr ''a_converted.wav'' \<mapsto> ustr ''RIFF''],
        cmd_log = [ffmpeg_line (ustr ''a.mp3'')], post_log = []\<rparr>)"
  using normalization_failure_and_success [of "demo_env (demo_shell 1 0) (Raises [])"
      "ustr ''a.mp3''" demo_world "[]" "ustr ''small''" "ustr ''llama3''"]
    normalization_failure_and_success [of "demo_env (demo_shell 0 0) (Raises [])"
      "ustr ''a.mp3''" demo_world "[]" "ustr ''small''" "ustr ''llama3''"]
  by (simp add: demo_ffmpeg_status demo_files_after_ffmpeg demo_world_def demo_a_mp3)

text \<open>
  C8 as it was stated fails for \<^verbatim>\<open>streamlit_app.py\<close>: \<^verbatim>\<open>ffmpeg\<close> leaves with
  status 1, and \<^verbatim>\<open>preprocess_audio_file\<close> and \<^verbatim>\<open>transcribe_audio\<close> return \<^verbatim>\<open>None\<close>;
  nothing is raised.
\<close>

theorem streamlit_normalization_failure_returns_none:
  "st_preprocess_audio_file (demo_env (demo_shell 1 0) (Raises [])) (ustr ''a.mp3'') demo_world =
     (Inr None, demo_world\<lparr>cmd_log := [ffmpeg_line (ustr ''a.mp3'')]\<rparr>)
   \<and> st_transcribe_audio (demo_env (demo_shell 1 0) (Raises [])) (ustr ''a.mp3'') (ustr ''small'')
       demo_world =
     (Inr None, demo_world\<lparr>cmd_log := [ffmpeg_line (ustr ''a.mp3'')]\<rparr>)"
  by (simp add: st_transcribe_audio_def st_preprocess_audio_file_eq demo_ffmpeg_status
      demo_files_after_ffmpeg demo_world_def)

subsection \<open>C9: a status other than 200\<close>

text \<open>
  C9. When the server answers with a status other than 200 (500, say), both
  versions of \<^verbatim>\<open>summarize_with_model\<close> return, without raising, the text
  \<^verbatim>\<open>Error: Failed to summarize with model\<close>, the model identifier,
  \<^verbatim>\<open>Server returned:\<close> and the \<^verbatim>\<open>text\<close> of the response, and end with
  \<^verbatim>\<open>Transcript is still available for download below.\<close>
\<close>

theorem non_200_status_explained:
  assumes "m \<noteq> ustr ''ollama-not-available''"
    and "http_post E (OLLAMA_SERVER_URL E @ ustr ''/api/generate'') m (prompt_of c t) = Responds r"
    and "status_code r \<noteq> 200"
  shows "summarize_with_model E m c t w =
      (Inr ([10060] @ ustr '' Error: Failed to summarize with model '' @ m @
            ustr ''. Server returned: '' @ resp_text r @ nl @ nl @
            ustr ''Transcript is still available for download below.''),
       w\<lparr>post_log := post_log w @
          [(OLLAMA_SERVER_URL E @ ustr ''/api/generate'', m, prompt_of c t)]\<rparr>)
    \<and> st_summarize_with_model E m c t w = summarize_with_model E m c t w
    \<and> sublist (resp_text r)
        ([10060] @ ustr '' Error: Failed to summarize with model '' @ m @
         ustr ''. Server returned: '' @ resp_text r @ nl @ nl @
         ustr ''Transcript is still available for download below.'')
    \<and> suffix (ustr ''Transcript is still available for download below.'')
        ([10060] @ ustr '' Error: Failed to summarize with model '' @ m @
         ustr ''. Server returned: '' @ resp_text r @ nl @ nl @
         ustr ''Transcript is still available for download below.'')"
proof -
  let ?a = "[10060] @ ustr '' Error: Failed to summarize with model '' @ m @
    ustr ''. Server returned: ''"
  let ?b = "nl @ nl @ ustr ''Transcript is still available for download below.''"
  have 1: "sublist (resp_text r) (?a @ resp_text r @ ?b)" by (rule sublist_appendI)
  have 2: "suffix (ustr ''Transcript is still available for download below.'')
      ((?a @ resp_text r @ nl @ nl) @ ustr ''Transcript is still available for download below.'')"
    unfolding suffix_def by blast
  from assms 1 2 show ?thesis
    by (simp add: summarize_with_model_def st_summarize_with_model_def summarize_body_request)
qed

text \<open>The theorem on a server that answers with status 500.\<close>

theorem non_200_status_explained_witness:
  "summarize_with_model
     (demo_env (demo_shell 0 0)
        (Responds (demo_response 500 [''model runner crashed''])))
     (ustr ''llama3'') [] (ustr ''hello world'') demo_world
   = (Inr ([10060] @
           ustr '' Error: Failed to summarize with model llama3. Server returned: model runner crashed''
           @ nl @ nl @ ustr ''Transcript is still available for download below.''),
      demo_world\<lparr>post_log := [(ustr ''http://localhost:11434/api/generate'', ustr ''llama3'',
         prompt_of [] (ustr ''hello world''))]\<rparr>)"
  using non_200_status_explained [of "ustr ''llama3''"
      "demo_env (demo_shell 0 0)
        (Responds (demo_response 500 [''model runner crashed'']))"
      "[]" "ustr ''hello world''"
      "demo_response 500 [''model runner crashed'']"
      demo_world]
  by (simp add: demo_env_def demo_world_def demo_response_simps crashed_text ustr_def)

subsection \<open>C10: the loop on a stream of frames\<close>

text \<open>
  C10, as amended. When every line is blank or holds a frame (it decodes and
  parses to a JSON object whose value under \<^verbatim>\<open>response\<close>, if there is one, is a
  string), the loop returns, without raising, the accumulated text: the texts
  of the frames in the order of arrival, up to and with the first terminal
  one. A blank line is skipped before it is decoded; a frame without the key
  \<^verbatim>\<open>response\<close> has the empty text; a frame without the key \<^verbatim>\<open>done\<close> is not
  terminal.
\<close>

theorem frames_stream_accumulates:
  assumes "\<forall>l\<in>set lines. line_text E l \<noteq> None"
  shows "iter_lines_loop E acc lines = Inr (acc @ accumulated E lines)
    \<and> iter_lines_loop E acc ([] # lines) = iter_lines_loop E acc lines
    \<and> (\<forall>l kvs. l \<noteq> [] \<longrightarrow> frame_of E l = Some (JObj kvs) \<longrightarrow>
          map_of kvs (ustr ''response'') = None \<longrightarrow> line_text E l = Some [])
    \<and> (\<forall>l kvs. l \<noteq> [] \<longrightarrow> frame_of E l = Some (JObj kvs) \<longrightarrow>
          map_of kvs (ustr ''done'') = None \<longrightarrow> \<not> line_done E l)"
  using loop_accumulated [OF assms, of acc]
  by (simp add: line_text_def line_done_def)

text \<open>The theorem on the lines \<^verbatim>\<open>A\<close>, a blank line, \<^verbatim>\<open>C\<close>, \<^verbatim>\<open>B\<close> and \<^verbatim>\<open>A\<close>.\<close>

theorem frames_stream_accumulates_witness:
  "line_text (demo_env (demo_shell 0 0) (Raises [])) line_A = Some (ustr ''A'')
   \<and> line_text (demo_env (demo_shell 0 0) (Raises [])) [] = Some []
   \<and> line_text (demo_env (demo_shell 0 0) (Raises [])) line_C = Some (ustr ''C'')
   \<and> line_text (demo_env (demo_shell 0 0) (Raises [])) line_B = Some (ustr ''B'')
   \<and> iter_lines_loop (demo_env (demo_shell 0 0) (Raises [])) []
        [line_A, [], line_C, line_B, line_A] = Inr (ustr ''ACB'')"
proof -
  let ?E = "demo_env (demo_shell 0 0) (Raises [])"
  have a: "line_text ?E line_A = Some (ustr ''A'')" "\<not> line_done ?E line_A"
    using line_A_text [OF demo_frame_A] by simp_all
  have b: "line_text ?E line_B = Some (ustr ''B'')" "line_done ?E line_B"
    using line_B_text [OF demo_frame_B] by simp_all
  have c: "line_text ?E line_C = Some (ustr ''C'')" "\<not> line_done ?E line_C"
    using line_C_text [OF demo_frame_C] by simp_all
  have e: "line_text ?E [] = Some []" "\<not> line_done ?E []"
    by (simp_all add: line_text_def line_done_def)
  have h: "\<forall>l\<in>set [line_A, [], line_C, line_B, line_A]. line_text ?E l \<noteq> None"
    using a b c e by simp
  have "accumulated ?E [line_A, [], line_C, line_B, line_A] = ustr ''ACB''"
    using a b c e by (simp add: ustr_def)
  with frames_stream_accumulates [OF h, of "[]"] a b c e show ?thesis
    by (simp del: iter_lines_loop.simps)
qed

text \<open>
  C10 as it was stated fails: the line \<^verbatim>\<open>5\<close> parses as JSON, to a number, and
  the loop raises \<^verbatim>\<open>AttributeError\<close> at \<^verbatim>\<open>json_line.get\<close>.
\<close>

theorem bare_number_line_raises:
  "frame_of (demo_env (demo_shell 0 0) (Raises [])) ''5'' = Some (JInt 5)
   \<and> iter_lines_loop (demo_env (demo_shell 0 0) (Raises [])) [] [''5''] = Inl AttributeError"
  by (simp add: frame_of_def demo_env_def demo_decode_def demo_loads_def line_A_def line_B_def
      line_C_def ustr_def)

end
